theory Spec2Isabelle
  imports Complex_Main
begin

section \<open>JavaScript values and plain objects\<close>

text \<open>
  Settings values are untyped at run time (\<^verbatim>\<open>Record<string, unknown>\<close>). A plain object is
  an association list in property insertion order; JavaScript numbers are modelled as
  rationals (no value in the modelled code paths is computed from NaN or infinities).
\<close>

datatype jsval =
    JUndefined
  | JNull
  | JBool bool
  | JNum rat
  | JStr string
  | JArr "jsval list"
  | JObj "(string \<times> jsval) list"

type_synonym jsobj = "(string \<times> jsval) list"

text \<open>Property read \<^verbatim>\<open>obj[key]\<close>: a missing property reads as \<^verbatim>\<open>undefined\<close>.\<close>

fun obj_get :: "(string \<times> 'v) list \<Rightarrow> string \<Rightarrow> 'v option" where
  "obj_get [] k = None"
| "obj_get ((k', v) # rest) k = (if k' = k then Some v else obj_get rest k)"

definition js_prop :: "jsobj \<Rightarrow> string \<Rightarrow> jsval" where
  "js_prop obj k = (case obj_get obj k of None \<Rightarrow> JUndefined | Some v \<Rightarrow> v)"

text \<open>Property write \<^verbatim>\<open>obj[key] = v\<close>: overwrite in place, or append a new property.\<close>

fun obj_set :: "(string \<times> 'v) list \<Rightarrow> string \<Rightarrow> 'v \<Rightarrow> (string \<times> 'v) list" where
  "obj_set [] k v = [(k, v)]"
| "obj_set ((k', v') # rest) k v =
     (if k' = k then (k, v) # rest else (k', v') # obj_set rest k v)"

text \<open>Object spread \<^verbatim>\<open>{ ...a, ...b }\<close>.\<close>

definition obj_spread :: "(string \<times> 'v) list \<Rightarrow> (string \<times> 'v) list \<Rightarrow> (string \<times> 'v) list" where
  "obj_spread a b = fold (\<lambda>(k, v) acc. obj_set acc k v) b a"

definition obj_keys :: "(string \<times> 'v) list \<Rightarrow> string list" where
  "obj_keys obj = map fst obj"

text \<open>The nullish test behind \<^verbatim>\<open>??\<close> and behind \<^verbatim>\<open>v !== null && v !== undefined\<close>.\<close>

definition nullish :: "jsval \<Rightarrow> bool" where
  "nullish v = (v = JUndefined \<or> v = JNull)"

definition coalesce :: "jsval \<Rightarrow> jsval \<Rightarrow> jsval" where
  "coalesce a b = (if nullish a then b else a)"

section \<open>Settings schema\<close>

text \<open>
  \<^verbatim>\<open>SettingField\<close> is a tagged union over ten kinds. Every kind carries \<^verbatim>\<open>label\<close>, an
  optional \<^verbatim>\<open>description\<close> and an optional \<^verbatim>\<open>default\<close> (\<^verbatim>\<open>None\<close> is an absent
  property). Of the kind-specific properties only those read by the modelled code are
  kept: \<^verbatim>\<open>options\<close> (as (value, label) pairs), the slider's \<^verbatim>\<open>min\<close> and the category's
  \<^verbatim>\<open>fields\<close>.
\<close>

record field_meta =
  label :: string
  description :: "string option"

datatype SettingField =
    StringField field_meta "string option"
  | NumberField field_meta "rat option"
  | BooleanField field_meta "bool option"
  | SelectField field_meta "(string \<times> string) list" "string option"
  | ColorField field_meta "string option"
  | SliderField field_meta "rat option" "rat option"
  | KeybindField field_meta "string option"
  | MultiChoiceField field_meta "(string \<times> string) list" "string list option"
  | OrderedListField field_meta "(string \<times> string) list" "string list option"
  | CategoryField field_meta "jsval option" "(string \<times> SettingField) list"

type_synonym SettingsSchema = "(string \<times> SettingField) list"

text \<open>The raw property read \<^verbatim>\<open>field.default\<close>, as the SDK hook uses it.\<close>

fun field_default :: "SettingField \<Rightarrow> jsval" where
  "field_default (StringField m d) = (case d of None \<Rightarrow> JUndefined | Some s \<Rightarrow> JStr s)"
| "field_default (NumberField m d) = (case d of None \<Rightarrow> JUndefined | Some n \<Rightarrow> JNum n)"
| "field_default (BooleanField m d) = (case d of None \<Rightarrow> JUndefined | Some b \<Rightarrow> JBool b)"
| "field_default (SelectField m opts d) = (case d of None \<Rightarrow> JUndefined | Some s \<Rightarrow> JStr s)"
| "field_default (ColorField m d) = (case d of None \<Rightarrow> JUndefined | Some s \<Rightarrow> JStr s)"
| "field_default (SliderField m mn d) = (case d of None \<Rightarrow> JUndefined | Some n \<Rightarrow> JNum n)"
| "field_default (KeybindField m d) = (case d of None \<Rightarrow> JUndefined | Some s \<Rightarrow> JStr s)"
| "field_default (MultiChoiceField m opts d) =
     (case d of None \<Rightarrow> JUndefined | Some xs \<Rightarrow> JArr (map JStr xs))"
| "field_default (OrderedListField m opts d) =
     (case d of None \<Rightarrow> JUndefined | Some xs \<Rightarrow> JArr (map JStr xs))"
| "field_default (CategoryField m d fs) = (case d of None \<Rightarrow> JUndefined | Some v \<Rightarrow> v)"

text \<open>
  \<^verbatim>\<open>getDefaultValue\<close> of the settings form: the declared default, else a fallback by kind;
  a category always builds an object from its nested fields, one
  \<^verbatim>\<open>categoryDefaults[key] = getDefaultValue(nestedField)\<close> per entry.
\<close>

fun getDefaultValue :: "SettingField \<Rightarrow> jsval"
  and categoryDefaults :: "(string \<times> SettingField) list \<Rightarrow> jsobj \<Rightarrow> jsobj" where
  "getDefaultValue (StringField m d) = coalesce (field_default (StringField m d)) (JStr [])"
| "getDefaultValue (NumberField m d) = coalesce (field_default (NumberField m d)) (JNum 0)"
| "getDefaultValue (BooleanField m d) = coalesce (field_default (BooleanField m d)) (JBool False)"
| "getDefaultValue (SelectField m opts d) =
     coalesce (field_default (SelectField m opts d))
       (coalesce (case opts of [] \<Rightarrow> JUndefined | (v, l) # rest \<Rightarrow> JStr v) (JStr []))"
| "getDefaultValue (ColorField m d) = coalesce (field_default (ColorField m d)) (JStr ''#000000'')"
| "getDefaultValue (SliderField m mn d) =
     coalesce (field_default (SliderField m mn d))
       (coalesce (case mn of None \<Rightarrow> JUndefined | Some n \<Rightarrow> JNum n) (JNum 0))"
| "getDefaultValue (KeybindField m d) = coalesce (field_default (KeybindField m d)) (JStr [])"
| "getDefaultValue (MultiChoiceField m opts d) =
     coalesce (field_default (MultiChoiceField m opts d)) (JArr [])"
| "getDefaultValue (OrderedListField m opts d) =
     coalesce (field_default (OrderedListField m opts d)) (JArr [])"
| "getDefaultValue (CategoryField m d fs) = JObj (categoryDefaults fs [])"
| "categoryDefaults [] acc = acc"
| "categoryDefaults ((key, nestedField) # rest) acc =
     categoryDefaults rest (obj_set acc key (getDefaultValue nestedField))"

section \<open>Settings form: loading and merging with defaults\<close>

text \<open>
  The loop of the form's \<^verbatim>\<open>loadSettings\<close>:
  \<^verbatim>\<open>for (const [key, field] of Object.entries(schema)) merged[key] = stored[key] ?? getDefaultValue(field)\<close>.
\<close>

fun form_merge :: "SettingsSchema \<Rightarrow> jsobj \<Rightarrow> jsobj \<Rightarrow> jsobj" where
  "form_merge [] stored merged = merged"
| "form_merge ((key, field) # rest) stored merged =
     form_merge rest stored (obj_set merged key (coalesce (js_prop stored key) (getDefaultValue field)))"

text \<open>The defaults loop shared by the \<^verbatim>\<open>catch\<close> branch of \<^verbatim>\<open>loadSettings\<close> and by \<^verbatim>\<open>handleReset\<close>.\<close>

fun form_defaults :: "SettingsSchema \<Rightarrow> jsobj \<Rightarrow> jsobj" where
  "form_defaults [] defaults = defaults"
| "form_defaults ((key, field) # rest) defaults =
     form_defaults rest (obj_set defaults key (getDefaultValue field))"

section \<open>SDK hook \<^verbatim>\<open>usePluginSettings\<close>: schema defaults\<close>

text \<open>The memoised \<^verbatim>\<open>defaults\<close>: \<^verbatim>\<open>result[key] = field.default\<close> for every schema entry.\<close>

fun hook_defaults :: "SettingsSchema \<Rightarrow> jsobj \<Rightarrow> jsobj" where
  "hook_defaults [] result = result"
| "hook_defaults ((key, field) # rest) result =
     hook_defaults rest (obj_set result key (field_default field))"


section \<open>The persisted key-value store\<close>

text \<open>
  A store handle of the Tauri store plugin: \<^verbatim>\<open>set\<close> changes the in-memory document,
  \<^verbatim>\<open>save\<close> writes it out. Every \<^verbatim>\<open>set\<close> and \<^verbatim>\<open>save\<close> call issued on the handle is
  recorded in \<^verbatim>\<open>writes\<close>, whether it resolves or rejects. Which calls reject is
  decided by the environment (\<^verbatim>\<open>store_faults\<close>).
\<close>

datatype store_call = StoreSet string jsval | StoreSave

record Store =
  cache :: jsobj
  disk :: jsobj
  writes :: "store_call list"

record store_faults =
  get_rejects :: "string \<Rightarrow> bool"
  set_rejects :: "string \<Rightarrow> bool"
  save_rejects :: bool

definition store_get :: "Store \<Rightarrow> string \<Rightarrow> jsval" where
  "store_get s key = js_prop (cache s) key"

definition store_set :: "store_faults \<Rightarrow> string \<Rightarrow> jsval \<Rightarrow> Store \<Rightarrow> bool \<times> Store" where
  "store_set f key v s =
     (if set_rejects f key then (False, s\<lparr>writes := writes s @ [StoreSet key v]\<rparr>)
      else (True, s\<lparr>cache := obj_set (cache s) key v, writes := writes s @ [StoreSet key v]\<rparr>))"

definition store_save :: "store_faults \<Rightarrow> Store \<Rightarrow> bool \<times> Store" where
  "store_save f s =
     (if save_rejects f then (False, s\<lparr>writes := writes s @ [StoreSave]\<rparr>)
      else (True, s\<lparr>disk := cache s, writes := writes s @ [StoreSave]\<rparr>))"

text \<open>
  The body of the \<^verbatim>\<open>try\<close> block found in every writer:
  \<^verbatim>\<open>for (const [key, value] of Object.entries(updates)) await store.set(key, value); await store.save();\<close>
  The first rejecting call ends it; the flag tells whether every call resolved.
\<close>

fun store_set_entries :: "store_faults \<Rightarrow> jsobj \<Rightarrow> Store \<Rightarrow> bool \<times> Store" where
  "store_set_entries f [] s = (True, s)"
| "store_set_entries f ((key, v) # rest) s =
     (case store_set f key v s of
        (False, s') \<Rightarrow> (False, s')
      | (True, s') \<Rightarrow> store_set_entries f rest s')"

definition store_write_batch :: "store_faults \<Rightarrow> jsobj \<Rightarrow> Store \<Rightarrow> bool \<times> Store" where
  "store_write_batch f updates s =
     (case store_set_entries f updates s of
        (False, s') \<Rightarrow> (False, s')
      | (True, s') \<Rightarrow> store_save f s')"

section \<open>SDK hook \<^verbatim>\<open>usePluginSettings\<close>: loading and writing\<close>

record plugin_hook_state =
  ph_store :: "Store option"
  ph_values :: jsobj
  ph_isLoading :: bool
  ph_console :: "string list"

definition ph_initial :: plugin_hook_state where
  "ph_initial = \<lparr>ph_store = None, ph_values = [], ph_isLoading = True, ph_console = []\<rparr>"

text \<open>
  The loop of the hook's \<^verbatim>\<open>loadSettings\<close>; \<^verbatim>\<open>None\<close> when a \<^verbatim>\<open>get\<close> rejects and control
  passes to the \<^verbatim>\<open>catch\<close> block.
\<close>

fun hook_load_loop :: "store_faults \<Rightarrow> Store \<Rightarrow> SettingsSchema \<Rightarrow> jsobj \<Rightarrow> jsobj option" where
  "hook_load_loop f s [] loaded = Some loaded"
| "hook_load_loop f s ((key, field) # rest) loaded =
     (if get_rejects f key then None
      else let stored = store_get s key
           in hook_load_loop f s rest
                (obj_set loaded key (if \<not> nullish stored then stored else field_default field)))"

text \<open>
  \<^verbatim>\<open>loadSettings\<close> of the hook. \<^verbatim>\<open>load\<close> is the store plugin's \<^verbatim>\<open>load(name)\<close>: \<^verbatim>\<open>None\<close>
  when it rejects. The component is taken to stay mounted.
\<close>

definition hook_loadSettings ::
  "(string \<Rightarrow> Store option) \<Rightarrow> store_faults \<Rightarrow> string \<Rightarrow> SettingsSchema \<Rightarrow>
   plugin_hook_state \<Rightarrow> plugin_hook_state" where
  "hook_loadSettings load f pluginId schema st =
     (case load (pluginId @ ''-settings.json'') of
        None \<Rightarrow>
          st\<lparr>ph_console := ph_console st @ [''[usePluginSettings] Failed to load:''],
             ph_values := hook_defaults schema [],
             ph_isLoading := False\<rparr>
      | Some s \<Rightarrow>
          (case hook_load_loop f s schema [] of
             None \<Rightarrow>
               st\<lparr>ph_store := Some s,
                  ph_console := ph_console st @ [''[usePluginSettings] Failed to load:''],
                  ph_values := hook_defaults schema [],
                  ph_isLoading := False\<rparr>
           | Some loaded \<Rightarrow>
               st\<lparr>ph_store := Some s, ph_values := loaded, ph_isLoading := False\<rparr>))"

text \<open>
  \<^verbatim>\<open>setSetting\<close>: the flag is \<^verbatim>\<open>True\<close> when the returned promise resolves and \<^verbatim>\<open>False\<close>
  when a store call rejects (there is no \<^verbatim>\<open>try\<close> around them).
\<close>

definition setSetting ::
  "store_faults \<Rightarrow> string \<Rightarrow> jsval \<Rightarrow> plugin_hook_state \<Rightarrow> bool \<times> plugin_hook_state" where
  "setSetting f key v st =
     (case ph_store st of
        None \<Rightarrow> (True, st)
      | Some s \<Rightarrow>
          (let st1 = st\<lparr>ph_values := obj_set (ph_values st) key v\<rparr>
           in case store_set f key v s of
                (False, s1) \<Rightarrow> (False, st1\<lparr>ph_store := Some s1\<rparr>)
              | (True, s1) \<Rightarrow>
                  (case store_save f s1 of
                     (ok, s2) \<Rightarrow> (ok, st1\<lparr>ph_store := Some s2\<rparr>))))"

text \<open>The topic the hook's \<^verbatim>\<open>setupListener\<close> passes to \<^verbatim>\<open>listen\<close>, and its handler.\<close>

definition setupListener_topic :: "string \<Rightarrow> string" where
  "setupListener_topic pluginId = ''yaof:settings:changed:'' @ pluginId"

fun listener_merge :: "SettingsSchema \<Rightarrow> jsobj \<Rightarrow> jsobj \<Rightarrow> jsobj" where
  "listener_merge [] newValues merged = merged"
| "listener_merge ((key, field) # rest) newValues merged =
     listener_merge rest newValues
       (obj_set merged key
          (case obj_get newValues key of Some v \<Rightarrow> v | None \<Rightarrow> field_default field))"

definition on_settings_changed :: "SettingsSchema \<Rightarrow> jsobj \<Rightarrow> plugin_hook_state \<Rightarrow> plugin_hook_state" where
  "on_settings_changed schema newValues st = st\<lparr>ph_values := listener_merge schema newValues []\<rparr>"

section \<open>Settings form \<^verbatim>\<open>DynamicSettingsForm\<close>\<close>

text \<open>
  The form talks to the backend through \<^verbatim>\<open>invoke\<close> and \<^verbatim>\<open>emit\<close>; each call it issues is
  recorded. \<^verbatim>\<open>EmitEvent topic pluginId values\<close> is \<^verbatim>\<open>emit(topic, {pluginId, values})\<close>.
\<close>

datatype form_call =
    InvokeGetAll string
  | InvokeSetAll string jsobj
  | EmitEvent string string jsobj

record form_env =
  get_all_result :: "string \<Rightarrow> jsobj option"
  form_resolves :: "form_call \<Rightarrow> bool"

record form_state =
  fs_values :: jsobj
  fs_latestValuesRef :: jsobj
  fs_isLoading :: bool
  fs_isSaving :: bool
  fs_hasChanges :: bool
  fs_debounceTimerRef :: "nat option"
  fs_calls :: "form_call list"
  fs_console :: "string list"
  fs_onSave :: nat

definition fs_initial :: form_state where
  "fs_initial =
     \<lparr>fs_values = [], fs_latestValuesRef = [], fs_isLoading = True, fs_isSaving = False,
      fs_hasChanges = False, fs_debounceTimerRef = None, fs_calls = [], fs_console = [],
      fs_onSave = 0\<rparr>"

definition FORM_DEBOUNCE_DELAY :: nat where
  "FORM_DEBOUNCE_DELAY = 500"

definition form_loadSettings :: "form_env \<Rightarrow> string \<Rightarrow> SettingsSchema \<Rightarrow> form_state \<Rightarrow> form_state" where
  "form_loadSettings env pluginId schema st =
     (let st1 = st\<lparr>fs_isLoading := True, fs_calls := fs_calls st @ [InvokeGetAll pluginId]\<rparr>
      in case get_all_result env pluginId of
           Some stored \<Rightarrow>
             (let merged = form_merge schema stored []
              in st1\<lparr>fs_latestValuesRef := merged, fs_values := merged, fs_isLoading := False\<rparr>)
         | None \<Rightarrow>
             st1\<lparr>fs_console := fs_console st1 @ [''Failed to load settings:''],
                 fs_values := form_defaults schema [],
                 fs_isLoading := False\<rparr>)"

text \<open>
  The statements shared word for word by \<^verbatim>\<open>debouncedSave(valuesToSave)\<close> and by
  \<^verbatim>\<open>handleSave\<close> (which passes the \<^verbatim>\<open>values\<close> state): write everything, then emit.
\<close>

definition save_and_emit :: "form_env \<Rightarrow> string \<Rightarrow> jsobj \<Rightarrow> form_state \<Rightarrow> form_state" where
  "save_and_emit env pluginId vals st =
     (let write = InvokeSetAll pluginId vals;
          event = EmitEvent (''yaof:settings:changed:'' @ pluginId) pluginId vals;
          st1 = st\<lparr>fs_isSaving := True, fs_calls := fs_calls st @ [write]\<rparr>
      in if \<not> form_resolves env write
         then st1\<lparr>fs_console := fs_console st1 @ [''Failed to save settings:''],
                  fs_isSaving := False\<rparr>
         else (let st2 = st1\<lparr>fs_calls := fs_calls st1 @ [event]\<rparr>
               in if \<not> form_resolves env event
                  then st2\<lparr>fs_console := fs_console st2 @ [''Failed to save settings:''],
                           fs_isSaving := False\<rparr>
                  else st2\<lparr>fs_hasChanges := False, fs_onSave := Suc (fs_onSave st2),
                           fs_isSaving := False\<rparr>))"

definition debouncedSave :: "form_env \<Rightarrow> string \<Rightarrow> jsobj \<Rightarrow> form_state \<Rightarrow> form_state" where
  "debouncedSave env pluginId valuesToSave st = save_and_emit env pluginId valuesToSave st"

definition handleChange :: "string \<Rightarrow> jsval \<Rightarrow> form_state \<Rightarrow> form_state" where
  "handleChange key v st =
     (let newValues = obj_set (fs_latestValuesRef st) key v
      in st\<lparr>fs_latestValuesRef := newValues, fs_values := newValues, fs_hasChanges := True,
            fs_debounceTimerRef := Some FORM_DEBOUNCE_DELAY\<rparr>)"

definition handleSave :: "form_env \<Rightarrow> string \<Rightarrow> form_state \<Rightarrow> form_state" where
  "handleSave env pluginId st =
     save_and_emit env pluginId (fs_values st) (st\<lparr>fs_debounceTimerRef := None\<rparr>)"

definition handleReset :: "SettingsSchema \<Rightarrow> form_state \<Rightarrow> form_state" where
  "handleReset schema st =
     (let st0 = st\<lparr>fs_debounceTimerRef := None\<rparr>;
          defaults = form_defaults schema []
      in st0\<lparr>fs_latestValuesRef := defaults, fs_values := defaults, fs_hasChanges := True,
             fs_debounceTimerRef := Some FORM_DEBOUNCE_DELAY\<rparr>)"

text \<open>
  Time passing for \<^verbatim>\<open>d\<close> milliseconds. \<^verbatim>\<open>fs_debounceTimerRef\<close> holds the time left on the
  armed timer (\<^verbatim>\<open>None\<close>: no live timer); when it runs out the callback
  \<^verbatim>\<open>debouncedSave(latestValuesRef.current)\<close> runs once.
\<close>

definition form_elapse :: "form_env \<Rightarrow> string \<Rightarrow> nat \<Rightarrow> form_state \<Rightarrow> form_state" where
  "form_elapse env pluginId d st =
     (case fs_debounceTimerRef st of
        None \<Rightarrow> st
      | Some r \<Rightarrow>
          if d < r then st\<lparr>fs_debounceTimerRef := Some (r - d)\<rparr>
          else debouncedSave env pluginId (fs_latestValuesRef st) (st\<lparr>fs_debounceTimerRef := None\<rparr>))"


text \<open>The user's actions on the form, and time passing, as events.\<close>

datatype form_event = FormChange string jsval | FormSave | FormReset | FormWait nat

fun form_step :: "form_env \<Rightarrow> string \<Rightarrow> SettingsSchema \<Rightarrow> form_event \<Rightarrow> form_state \<Rightarrow> form_state" where
  "form_step env pluginId schema (FormChange key v) st = handleChange key v st"
| "form_step env pluginId schema FormSave st = handleSave env pluginId st"
| "form_step env pluginId schema FormReset st = handleReset schema st"
| "form_step env pluginId schema (FormWait d) st = form_elapse env pluginId d st"

definition form_run ::
  "form_env \<Rightarrow> string \<Rightarrow> SettingsSchema \<Rightarrow> form_event list \<Rightarrow> form_state \<Rightarrow> form_state" where
  "form_run env pluginId schema evs st = fold (form_step env pluginId schema) evs st"

section \<open>Window-manager commands\<close>

text \<open>
  The \<^verbatim>\<open>invoke("plugin:yaof|...")\<close> calls on overlay windows. Arguments are passed as the
  run-time values they are. \<^verbatim>\<open>OverlayExists\<close> is the existence query; the others act on
  the window.
\<close>

record OverlayConfig =
  cfg_id :: string
  cfg_pluginId :: string
  cfg_entryPoint :: string
  cfg_width :: jsval
  cfg_height :: jsval
  cfg_x :: jsval
  cfg_y :: jsval
  cfg_clickThrough :: jsval
  cfg_frameless :: bool

datatype wm_call =
    OverlayExists string
  | SpawnOverlay OverlayConfig
  | OverlaySetVisible string jsval
  | OverlayUpdateGeometry string jsval jsval jsval jsval
  | OverlaySetClickThrough string jsval
  | OverlaySetAlwaysOnTop string jsval

fun is_window_op :: "wm_call \<Rightarrow> bool" where
  "is_window_op (OverlayExists w) = False"
| "is_window_op c = True"

definition window_ops :: "wm_call list \<Rightarrow> wm_call list" where
  "window_ops cs = filter is_window_op cs"

text \<open>
  The environment: what the existence query answers for a window id (\<^verbatim>\<open>None\<close>: the call
  rejects), and which of the other calls resolve.
\<close>

record wm_env =
  exists_result :: "string \<Rightarrow> bool option"
  wm_resolves :: "wm_call \<Rightarrow> bool"

text \<open>
  Inside a \<^verbatim>\<open>try\<close> block the awaited calls run in sequence until one rejects:
  \<^verbatim>\<open>io_rejected\<close> says that control has left for the \<^verbatim>\<open>catch\<close> block.
\<close>

record wm_io =
  io_calls :: "wm_call list"
  io_rejected :: bool

definition invoke :: "wm_env \<Rightarrow> wm_call \<Rightarrow> wm_io \<Rightarrow> wm_io" where
  "invoke env c io =
     (if io_rejected io then io
      else \<lparr>io_calls = io_calls io @ [c], io_rejected = \<not> wm_resolves env c\<rparr>)"

definition when_io :: "bool \<Rightarrow> (wm_io \<Rightarrow> wm_io) \<Rightarrow> wm_io \<Rightarrow> wm_io" where
  "when_io c act io = (if c then act io else io)"

section \<open>Overlay definitions and default settings\<close>

record OverlayDefinition =
  def_width :: rat
  def_height :: rat
  def_x :: "rat option"
  def_y :: "rat option"
  def_defaultPosition :: "string option"
  def_clickThrough :: "bool option"
  def_frameless :: "bool option"
  def_route :: "string option"

definition overlayWindowId :: "string \<Rightarrow> string \<Rightarrow> string" where
  "overlayWindowId pluginId overlayId = pluginId @ ''-'' @ overlayId"

definition storeName :: "string \<Rightarrow> string \<Rightarrow> string" where
  "storeName pluginId overlayId = pluginId @ ''-'' @ overlayId @ ''-overlay.json''"

definition calculateDefaultPosition :: "string option \<Rightarrow> rat \<Rightarrow> rat \<Rightarrow> rat \<times> rat" where
  "calculateDefaultPosition preset width height =
     (let screenWidth = 1920; screenHeight = 1080
      in if preset = Some ''top-left'' then (0, 0)
         else if preset = Some ''top-center'' then ((screenWidth - width) / 2, 0)
         else if preset = Some ''top-right'' then (screenWidth - width, 0)
         else if preset = Some ''center-left'' then (0, (screenHeight - height) / 2)
         else if preset = Some ''center'' then ((screenWidth - width) / 2, (screenHeight - height) / 2)
         else if preset = Some ''center-right'' then (screenWidth - width, (screenHeight - height) / 2)
         else if preset = Some ''bottom-left'' then (0, screenHeight - height)
         else if preset = Some ''bottom-center'' then ((screenWidth - width) / 2, screenHeight - height)
         else if preset = Some ''bottom-right'' then (screenWidth - width, screenHeight - height)
         else (100, 100))"


text \<open>
  The override loop of both overlay loaders:
  \<^verbatim>\<open>for (const key of Object.keys(defaults)) { const value = await s.get(key); if (value !== null && value !== undefined) loaded[key] = value; }\<close>
\<close>

fun override_loop :: "store_faults \<Rightarrow> Store \<Rightarrow> string list \<Rightarrow> jsobj \<Rightarrow> jsobj option" where
  "override_loop f s [] loaded = Some loaded"
| "override_loop f s (key # rest) loaded =
     (if get_rejects f key then None
      else let v = store_get s key
           in override_loop f s rest (if \<not> nullish v then obj_set loaded key v else loaded))"

section \<open>Settings panel \<^verbatim>\<open>OverlaySettingsPanel\<close>: the reconciler\<close>

record panel_props =
  pp_pluginId :: string
  pp_overlayId :: string
  pp_overlayDefinition :: OverlayDefinition

text \<open>
  What one call of \<^verbatim>\<open>applyToOverlay\<close> does: the commands it issued in order, what it
  logged, whether it called \<^verbatim>\<open>setIsOverlayRunning(true)\<close>, and whether its promise
  rejected (the existence query is outside every \<^verbatim>\<open>try\<close>).
\<close>

record apply_outcome =
  out_calls :: "wm_call list"
  out_console :: "string list"
  out_setRunning :: bool
  out_rejected :: bool

definition applyToOverlay :: "wm_env \<Rightarrow> panel_props \<Rightarrow> jsobj \<Rightarrow> jsobj \<Rightarrow> apply_outcome" where
  "applyToOverlay env props updates currentSettings =
     (let pluginId = pp_pluginId props;
          wid = overlayWindowId pluginId (pp_overlayId props);
          io0 = \<lparr>io_calls = [OverlayExists wid], io_rejected = False\<rparr>
      in case exists_result env wid of
           None \<Rightarrow>
             \<lparr>out_calls = [OverlayExists wid], out_console = [], out_setRunning = False,
              out_rejected = True\<rparr>
         | Some False \<Rightarrow>
             if js_prop updates ''enabled'' = JBool True
             then (let route = (case def_route (pp_overlayDefinition props) of
                                  None \<Rightarrow> ''/'' | Some r \<Rightarrow> r);
                       entryPoint = ''yaof-plugin://'' @ pluginId @ ''/index.html#'' @ route;
                       io = invoke env
                              (SpawnOverlay
                                 \<lparr>cfg_id = wid,
                                  cfg_pluginId = pluginId,
                                  cfg_entryPoint = entryPoint,
                                  cfg_width = js_prop currentSettings ''width'',
                                  cfg_height = js_prop currentSettings ''height'',
                                  cfg_x = js_prop currentSettings ''x'',
                                  cfg_y = js_prop currentSettings ''y'',
                                  cfg_clickThrough = js_prop currentSettings ''clickThrough'',
                                  cfg_frameless = True\<rparr>) io0
                   in if io_rejected io
                      then \<lparr>out_calls = io_calls io, out_console = [''Failed to spawn overlay:''],
                            out_setRunning = False, out_rejected = False\<rparr>
                      else \<lparr>out_calls = io_calls io, out_console = [],
                            out_setRunning = True, out_rejected = False\<rparr>)
             else \<lparr>out_calls = [OverlayExists wid], out_console = [], out_setRunning = False,
                   out_rejected = False\<rparr>
         | Some True \<Rightarrow>
             (let io =
                (if js_prop updates ''enabled'' = JBool False
                 then invoke env (OverlaySetVisible wid (JBool False)) io0
                 else
                   (let io1 = when_io (js_prop updates ''enabled'' = JBool True)
                                (invoke env (OverlaySetVisible wid (JBool True))) io0;
                        io2 = when_io
                                (js_prop updates ''x'' \<noteq> JUndefined \<or>
                                 js_prop updates ''y'' \<noteq> JUndefined \<or>
                                 js_prop updates ''width'' \<noteq> JUndefined \<or>
                                 js_prop updates ''height'' \<noteq> JUndefined)
                                (invoke env
                                   (OverlayUpdateGeometry wid
                                      (js_prop currentSettings ''x'')
                                      (js_prop currentSettings ''y'')
                                      (js_prop currentSettings ''width'')
                                      (js_prop currentSettings ''height''))) io1;
                        io3 = when_io (js_prop updates ''clickThrough'' \<noteq> JUndefined)
                                (invoke env
                                   (OverlaySetClickThrough wid (js_prop updates ''clickThrough''))) io2;
                        io4 = when_io (js_prop updates ''alwaysOnTop'' \<noteq> JUndefined)
                                (invoke env
                                   (OverlaySetAlwaysOnTop wid (js_prop updates ''alwaysOnTop''))) io3
                    in io4))
              in \<lparr>out_calls = io_calls io,
                  out_console = (if io_rejected io then [''Failed to apply overlay settings:''] else []),
                  out_setRunning = False, out_rejected = False\<rparr>))"


section \<open>Settings panel \<^verbatim>\<open>OverlaySettingsPanel\<close>: state and debounced updates\<close>

record panel_env =
  pe_load :: "string \<Rightarrow> Store option"
  pe_faults :: store_faults
  pe_wm :: wm_env
















section \<open>SDK hook \<^verbatim>\<open>useOverlaySettings\<close>\<close>

record overlay_ctx =
  oc_pluginId :: string
  oc_overlayId :: string
  oc_overlayDef :: "OverlayDefinition option"

record overlay_hook_state =
  oh_store :: "Store option"
  oh_settings :: jsobj
  oh_manifestDefaults :: jsobj
  oh_isLoading :: bool
  oh_debounceTimerRef :: "(nat \<times> jsobj) option"
  oh_pendingUpdatesRef :: jsobj
  oh_wm_calls :: "wm_call list"
  oh_console :: "string list"

definition FALLBACK_DEFAULTS :: jsobj where
  "FALLBACK_DEFAULTS =
     [(''enabled'', JBool True),
      (''width'', JNum 300),
      (''height'', JNum 200),
      (''x'', JNum 100),
      (''y'', JNum 100),
      (''positionPreset'', JStr ''bottom-right''),
      (''opacity'', JNum 100),
      (''clickThrough'', JBool False),
      (''alwaysOnTop'', JBool True)]"

definition HOOK_DEBOUNCE_DELAY :: nat where
  "HOOK_DEBOUNCE_DELAY = 300"

definition oh_initial :: overlay_hook_state where
  "oh_initial =
     \<lparr>oh_store = None, oh_settings = FALLBACK_DEFAULTS, oh_manifestDefaults = FALLBACK_DEFAULTS,
      oh_isLoading = True, oh_debounceTimerRef = None, oh_pendingUpdatesRef = [],
      oh_wm_calls = [], oh_console = []\<rparr>"

text \<open>The \<^verbatim>\<open>defaults\<close> object built in the hook's \<^verbatim>\<open>loadSettings\<close> from the manifest entry.\<close>

definition manifest_defaults :: "OverlayDefinition option \<Rightarrow> jsobj" where
  "manifest_defaults overlayDef =
     (let width = (case overlayDef of Some d \<Rightarrow> def_width d | None \<Rightarrow> 300);
          height = (case overlayDef of Some d \<Rightarrow> def_height d | None \<Rightarrow> 200);
          defaultPos = calculateDefaultPosition
                         (case overlayDef of Some d \<Rightarrow> def_defaultPosition d | None \<Rightarrow> None)
                         width height
      in [(''enabled'', JBool True),
          (''width'', JNum width),
          (''height'', JNum height),
          (''x'', JNum (case overlayDef of
                          Some d \<Rightarrow> (case def_x d of Some v \<Rightarrow> v | None \<Rightarrow> fst defaultPos)
                        | None \<Rightarrow> fst defaultPos)),
          (''y'', JNum (case overlayDef of
                          Some d \<Rightarrow> (case def_y d of Some v \<Rightarrow> v | None \<Rightarrow> snd defaultPos)
                        | None \<Rightarrow> snd defaultPos)),
          (''positionPreset'',
             JStr (case overlayDef of
                     Some d \<Rightarrow> (case def_defaultPosition d of Some p \<Rightarrow> p | None \<Rightarrow> ''bottom-right'')
                   | None \<Rightarrow> ''bottom-right'')),
          (''opacity'', JNum 100),
          (''clickThrough'',
             JBool (case overlayDef of
                      Some d \<Rightarrow> (case def_clickThrough d of Some b \<Rightarrow> b | None \<Rightarrow> False)
                    | None \<Rightarrow> False)),
          (''alwaysOnTop'', JBool True)])"

text \<open>
  \<^verbatim>\<open>applySettings(s, skipClickThrough = false)\<close>: the four commands of its \<^verbatim>\<open>try\<close> block.
\<close>

definition applySettings :: "wm_env \<Rightarrow> string \<Rightarrow> jsobj \<Rightarrow> bool \<Rightarrow> wm_io" where
  "applySettings env wid s skipClickThrough =
     (let io1 = invoke env
                  (OverlayUpdateGeometry wid (js_prop s ''x'') (js_prop s ''y'')
                     (js_prop s ''width'') (js_prop s ''height''))
                  \<lparr>io_calls = [], io_rejected = False\<rparr>;
          io2 = when_io (\<not> skipClickThrough)
                  (invoke env (OverlaySetClickThrough wid (js_prop s ''clickThrough''))) io1;
          io3 = invoke env (OverlaySetAlwaysOnTop wid (js_prop s ''alwaysOnTop'')) io2;
          io4 = invoke env (OverlaySetVisible wid (js_prop s ''enabled'')) io3
      in io4)"

definition record_apply :: "wm_io \<Rightarrow> overlay_hook_state \<Rightarrow> overlay_hook_state" where
  "record_apply io st =
     st\<lparr>oh_wm_calls := oh_wm_calls st @ io_calls io,
        oh_console := oh_console st @
          (if io_rejected io then [''[useOverlaySettings] Failed to apply:''] else [])\<rparr>"

text \<open>\<^verbatim>\<open>loadSettings\<close> of the hook: the only caller that passes \<^verbatim>\<open>skipClickThrough = true\<close>.\<close>

definition overlay_loadSettings ::
  "panel_env \<Rightarrow> overlay_ctx \<Rightarrow> overlay_hook_state \<Rightarrow> overlay_hook_state" where
  "overlay_loadSettings env ctx st =
     (case pe_load env (storeName (oc_pluginId ctx) (oc_overlayId ctx)) of
        None \<Rightarrow>
          st\<lparr>oh_console := oh_console st @ [''[useOverlaySettings] Failed to load:''],
             oh_isLoading := False\<rparr>
      | Some s \<Rightarrow>
          (let defaults = manifest_defaults (oc_overlayDef ctx);
               st1 = st\<lparr>oh_store := Some s, oh_manifestDefaults := defaults\<rparr>
           in case override_loop (pe_faults env) s (obj_keys defaults) defaults of
                None \<Rightarrow>
                  st1\<lparr>oh_console := oh_console st1 @ [''[useOverlaySettings] Failed to load:''],
                      oh_isLoading := False\<rparr>
              | Some loaded \<Rightarrow>
                  (record_apply
                     (applySettings (pe_wm env)
                        (overlayWindowId (oc_pluginId ctx) (oc_overlayId ctx)) loaded True)
                     (st1\<lparr>oh_settings := loaded\<rparr>))
                    \<lparr>oh_isLoading := False\<rparr>))"

text \<open>
  \<^verbatim>\<open>debouncedApply(updates, currentSettings)\<close>: the armed timer keeps the
  \<^verbatim>\<open>currentSettings\<close> its callback closed over.
\<close>

definition debouncedApply :: "jsobj \<Rightarrow> jsobj \<Rightarrow> overlay_hook_state \<Rightarrow> overlay_hook_state" where
  "debouncedApply updates currentSettings st =
     (let st1 = st\<lparr>oh_pendingUpdatesRef := obj_spread (oh_pendingUpdatesRef st) updates\<rparr>;
          st2 = st1\<lparr>oh_debounceTimerRef := None\<rparr>
      in st2\<lparr>oh_debounceTimerRef := Some (HOOK_DEBOUNCE_DELAY, currentSettings)\<rparr>)"

definition updateSettings :: "jsobj \<Rightarrow> overlay_hook_state \<Rightarrow> overlay_hook_state" where
  "updateSettings updates st =
     (let newSettings = obj_spread (oh_settings st) updates
      in debouncedApply updates newSettings (st\<lparr>oh_settings := newSettings\<rparr>))"

definition resetToDefaults :: "overlay_hook_state \<Rightarrow> overlay_hook_state" where
  "resetToDefaults st = updateSettings (oh_manifestDefaults st) st"

definition overlay_flush ::
  "panel_env \<Rightarrow> overlay_ctx \<Rightarrow> jsobj \<Rightarrow> overlay_hook_state \<Rightarrow> overlay_hook_state" where
  "overlay_flush env ctx currentSettings st =
     (let pendingUpdates = oh_pendingUpdatesRef st;
          st0 = st\<lparr>oh_pendingUpdatesRef := []\<rparr>
      in case oh_store st0 of
           None \<Rightarrow> st0
         | Some s \<Rightarrow>
             if pendingUpdates = [] then st0
             else (case store_write_batch (pe_faults env) pendingUpdates s of
                     (ok, s') \<Rightarrow>
                       record_apply
                         (applySettings (pe_wm env)
                            (overlayWindowId (oc_pluginId ctx) (oc_overlayId ctx))
                            currentSettings False)
                         (st0\<lparr>oh_store := Some s',
                              oh_console := oh_console st0 @
                                (if ok then [] else [''[useOverlaySettings] Failed to save:''])\<rparr>)))"

definition overlay_elapse ::
  "panel_env \<Rightarrow> overlay_ctx \<Rightarrow> nat \<Rightarrow> overlay_hook_state \<Rightarrow> overlay_hook_state" where
  "overlay_elapse env ctx d st =
     (case oh_debounceTimerRef st of
        None \<Rightarrow> st
      | Some (r, currentSettings) \<Rightarrow>
          if d < r then st\<lparr>oh_debounceTimerRef := Some (r - d, currentSettings)\<rparr>
          else overlay_flush env ctx currentSettings (st\<lparr>oh_debounceTimerRef := None\<rparr>))"


section \<open>Auxiliary definitions for the proofs\<close>

text \<open>
  All the object-building loops above have one shape: walk the schema entries and assign
  \<^verbatim>\<open>acc[key] = g(key, field)\<close>.
\<close>

fun obj_build ::
  "(string \<Rightarrow> 'f \<Rightarrow> 'v) \<Rightarrow> (string \<times> 'f) list \<Rightarrow> (string \<times> 'v) list \<Rightarrow> (string \<times> 'v) list" where
  "obj_build g [] acc = acc"
| "obj_build g ((k, f) # rest) acc = obj_build g rest (obj_set acc k (g k f))"

text \<open>\<^verbatim>\<open>value?.[nestedKey]\<close>, as the category renderer reads a nested value.\<close>

fun nested_prop :: "jsval \<Rightarrow> string \<Rightarrow> jsval" where
  "nested_prop (JObj obj) k = js_prop obj k"
| "nested_prop v k = JUndefined"

text \<open>The form holds a value for every schema key, in its state and in its latest-values ref.\<close>

definition complete_for :: "SettingsSchema \<Rightarrow> form_state \<Rightarrow> bool" where
  "complete_for S st \<longleftrightarrow>
     set (obj_keys S) \<subseteq> set (obj_keys (fs_values st)) \<and>
     set (obj_keys S) \<subseteq> set (obj_keys (fs_latestValuesRef st))"

section \<open>A sample plugin\<close>

text \<open>
  A clock plugin with three settings, one of them a category, and one overlay window; its
  stored document overrides \<^verbatim>\<open>format\<close>, holds a stray key, and holds the category with
  only one of its two nested keys.
\<close>

definition meta :: "string \<Rightarrow> field_meta" where
  "meta l = \<lparr>label = l, description = None\<rparr>"

definition clock_schema :: SettingsSchema where
  "clock_schema =
     [(''format'', SelectField (meta ''Format'') [(''24h'', ''24 hour''), (''12h'', ''12 hour'')] (Some ''24h'')),
      (''showSeconds'', BooleanField (meta ''Show seconds'') (Some True)),
      (''appearance'',
         CategoryField (meta ''Appearance'') None
           [(''color'', ColorField (meta ''Color'') (Some ''#ff0000'')),
            (''size'', NumberField (meta ''Size'') (Some 12))])]"

definition clock_stored :: jsobj where
  "clock_stored =
     [(''format'', JStr ''12h''),
      (''legacy'', JNum 1),
      (''appearance'', JObj [(''color'', JStr ''#00ff00'')])]"

definition clock_store :: Store where
  "clock_store = \<lparr>cache = clock_stored, disk = clock_stored, writes = []\<rparr>"

definition no_faults :: store_faults where
  "no_faults = \<lparr>get_rejects = (\<lambda>k. False), set_rejects = (\<lambda>k. False), save_rejects = False\<rparr>"

definition read_faults :: store_faults where
  "read_faults = \<lparr>get_rejects = (\<lambda>k. True), set_rejects = (\<lambda>k. False), save_rejects = False\<rparr>"

definition load_rejects :: "string \<Rightarrow> Store option" where
  "load_rejects name = None"

definition load_opens :: "Store \<Rightarrow> string \<Rightarrow> Store option" where
  "load_opens s name = Some s"

definition clock_form_env :: form_env where
  "clock_form_env = \<lparr>get_all_result = (\<lambda>p. Some clock_stored), form_resolves = (\<lambda>c. True)\<rparr>"

definition clock_def :: OverlayDefinition where
  "clock_def =
     \<lparr>def_width = 300, def_height = 200, def_x = None, def_y = None,
      def_defaultPosition = Some ''center'', def_clickThrough = Some True,
      def_frameless = Some False, def_route = None\<rparr>"

definition clock_props :: panel_props where
  "clock_props = \<lparr>pp_pluginId = ''clock'', pp_overlayId = ''main'', pp_overlayDefinition = clock_def\<rparr>"

definition clock_settings :: jsobj where
  "clock_settings =
     [(''enabled'', JBool True), (''width'', JNum 300), (''height'', JNum 200),
      (''x'', JNum 810), (''y'', JNum 440), (''alwaysOnTop'', JBool True),
      (''clickThrough'', JBool True)]"

definition wm_answering :: "bool \<Rightarrow> wm_env" where
  "wm_answering b = \<lparr>exists_result = (\<lambda>w. Some b), wm_resolves = (\<lambda>c. True)\<rparr>"

definition empty_store :: Store where
  "empty_store = \<lparr>cache = [], disk = [], writes = []\<rparr>"

definition clock_env :: panel_env where
  "clock_env = \<lparr>pe_load = (\<lambda>n. Some empty_store), pe_faults = no_faults, pe_wm = wm_answering True\<rparr>"

text \<open>The same plugin in an environment where loading fails and writing works.\<close>

definition clock_form_env_failing :: form_env where
  "clock_form_env_failing = \<lparr>get_all_result = (\<lambda>p. None), form_resolves = (\<lambda>c. True)\<rparr>"


definition clock_ctx :: overlay_ctx where
  "clock_ctx = \<lparr>oc_pluginId = ''clock'', oc_overlayId = ''main'', oc_overlayDef = Some clock_def\<rparr>"


section \<open>Properties of the reconciler \<^verbatim>\<open>applyToOverlay\<close>\<close>

lemma invoke_fresh:
  "invoke env c \<lparr>io_calls = cs, io_rejected = False\<rparr> =
     \<lparr>io_calls = cs @ [c], io_rejected = \<not> wm_resolves env c\<rparr>"
  by (simp add: invoke_def)

lemma invoke_after_reject:
  "invoke env c \<lparr>io_calls = cs, io_rejected = True\<rparr> = \<lparr>io_calls = cs, io_rejected = True\<rparr>"
  by (simp add: invoke_def)

text \<open>
  Claim C1. In a reconciliation pass whose existence query answers \<^verbatim>\<open>false\<close>: if
  \<^verbatim>\<open>updates.enabled === true\<close>, the only window operation issued is one
  \<^verbatim>\<open>spawn_overlay\<close>, whose config takes \<^verbatim>\<open>x\<close>, \<^verbatim>\<open>y\<close>, \<^verbatim>\<open>width\<close>, \<^verbatim>\<open>height\<close> and
  \<^verbatim>\<open>clickThrough\<close> from the full current settings and whose entry point is the plugin's
  base URL followed by \<^verbatim>\<open>#\<close> and the manifest route (\<^verbatim>\<open>/\<close> when absent); no
  \<^verbatim>\<open>setVisible\<close> or \<^verbatim>\<open>updateGeometry\<close> is issued. If \<^verbatim>\<open>updates.enabled\<close> is anything
  else (absent or \<^verbatim>\<open>false\<close> in particular), no window operation is issued at all.
\<close>

theorem C1_unspawned_reconcile:
  assumes "exists_result env (overlayWindowId (pp_pluginId props) (pp_overlayId props)) = Some False"
  shows "(js_prop updates ''enabled'' = JBool True \<longrightarrow>
            window_ops (out_calls (applyToOverlay env props updates currentSettings)) =
              [SpawnOverlay
                 \<lparr>cfg_id = overlayWindowId (pp_pluginId props) (pp_overlayId props),
                  cfg_pluginId = pp_pluginId props,
                  cfg_entryPoint =
                    (''yaof-plugin://'' @ pp_pluginId props @ ''/index.html'') @ ''#'' @
                    (case def_route (pp_overlayDefinition props) of None \<Rightarrow> ''/'' | Some r \<Rightarrow> r),
                  cfg_width = js_prop currentSettings ''width'',
                  cfg_height = js_prop currentSettings ''height'',
                  cfg_x = js_prop currentSettings ''x'',
                  cfg_y = js_prop currentSettings ''y'',
                  cfg_clickThrough = js_prop currentSettings ''clickThrough'',
                  cfg_frameless = True\<rparr>]) \<and>
         (js_prop updates ''enabled'' \<noteq> JBool True \<longrightarrow>
            window_ops (out_calls (applyToOverlay env props updates currentSettings)) = [])"
  using assms
  by (simp add: applyToOverlay_def Let_def invoke_fresh window_ops_def)

theorem C1_unspawned_reconcile_witness:
  "exists_result (wm_answering False) (overlayWindowId (pp_pluginId clock_props) (pp_overlayId clock_props)) =
     Some False \<and>
   window_ops (out_calls (applyToOverlay (wm_answering False) clock_props [(''enabled'', JBool True)] clock_settings)) =
     [SpawnOverlay
        \<lparr>cfg_id = ''clock-main'', cfg_pluginId = ''clock'',
         cfg_entryPoint = ''yaof-plugin://clock/index.html#/'',
         cfg_width = JNum 300, cfg_height = JNum 200, cfg_x = JNum 810, cfg_y = JNum 440,
         cfg_clickThrough = JBool True, cfg_frameless = True\<rparr>] \<and>
   window_ops (out_calls (applyToOverlay (wm_answering False) clock_props [(''x'', JNum 5)] clock_settings)) = []"
proof -
  have h: "exists_result (wm_answering False)
             (overlayWindowId (pp_pluginId clock_props) (pp_overlayId clock_props)) = Some False"
    by (simp add: wm_answering_def)
  have on: "js_prop [(''enabled'', JBool True)] ''enabled'' = JBool True"
    and off: "js_prop [(''x'', JNum 5)] ''enabled'' \<noteq> JBool True"
    by (simp_all add: js_prop_def)
  from C1_unspawned_reconcile[OF h, where updates = "[(''enabled'', JBool True)]" and currentSettings = clock_settings] on
  have a: "window_ops (out_calls (applyToOverlay (wm_answering False) clock_props [(''enabled'', JBool True)] clock_settings)) =
     [SpawnOverlay
        \<lparr>cfg_id = ''clock-main'', cfg_pluginId = ''clock'',
         cfg_entryPoint = ''yaof-plugin://clock/index.html#/'',
         cfg_width = JNum 300, cfg_height = JNum 200, cfg_x = JNum 810, cfg_y = JNum 440,
         cfg_clickThrough = JBool True, cfg_frameless = True\<rparr>]"
    by (simp add: clock_props_def clock_def_def clock_settings_def overlayWindowId_def js_prop_def)
  from C1_unspawned_reconcile[OF h, where updates = "[(''x'', JNum 5)]" and currentSettings = clock_settings] off
  have b: "window_ops (out_calls (applyToOverlay (wm_answering False) clock_props [(''x'', JNum 5)] clock_settings)) = []"
    by blast
  from h a b show ?thesis by blast
qed

text \<open>
  Claim C2. In a reconciliation pass whose existence query answers \<^verbatim>\<open>true\<close> and whose
  update has \<^verbatim>\<open>enabled === false\<close>, exactly one window operation is issued,
  \<^verbatim>\<open>setVisible(windowId, false)\<close>: no spawn, geometry, click-through or always-on-top
  command, whatever else the update holds.
\<close>

theorem C2_running_disable:
  assumes "exists_result env (overlayWindowId (pp_pluginId props) (pp_overlayId props)) = Some True"
    and "js_prop updates ''enabled'' = JBool False"
  shows "window_ops (out_calls (applyToOverlay env props updates currentSettings)) =
           [OverlaySetVisible (overlayWindowId (pp_pluginId props) (pp_overlayId props)) (JBool False)]"
  using assms
  by (simp add: applyToOverlay_def Let_def invoke_fresh window_ops_def)

theorem C2_running_disable_witness:
  "exists_result (wm_answering True) (overlayWindowId (pp_pluginId clock_props) (pp_overlayId clock_props)) =
     Some True \<and>
   js_prop [(''enabled'', JBool False), (''x'', JNum 5), (''clickThrough'', JBool False)] ''enabled'' = JBool False \<and>
   window_ops (out_calls (applyToOverlay (wm_answering True) clock_props
       [(''enabled'', JBool False), (''x'', JNum 5), (''clickThrough'', JBool False)] clock_settings)) =
     [OverlaySetVisible ''clock-main'' (JBool False)]"
proof -
  have h: "exists_result (wm_answering True)
             (overlayWindowId (pp_pluginId clock_props) (pp_overlayId clock_props)) = Some True"
    by (simp add: wm_answering_def)
  have off: "js_prop [(''enabled'', JBool False), (''x'', JNum 5), (''clickThrough'', JBool False)] ''enabled'' = JBool False"
    by (simp add: js_prop_def)
  from C2_running_disable[OF h off, of clock_settings] h off show ?thesis
    by (simp add: clock_props_def overlayWindowId_def)
qed

lemma io_calls_invoke:
  "set (io_calls (invoke env c io)) \<subseteq> insert c (set (io_calls io))"
  by (simp add: invoke_def subset_insertI)

lemma io_calls_when:
  "set (io_calls (when_io b (invoke env c) io)) \<subseteq> insert c (set (io_calls io))"
  using io_calls_invoke[of env c io] by (simp add: when_io_def subset_insertI)

lemma applyToOverlay_frameless_irrelevant:
  "applyToOverlay env
       (props\<lparr>pp_overlayDefinition := (pp_overlayDefinition props)\<lparr>def_frameless := fl\<rparr>\<rparr>)
       updates currentSettings =
     applyToOverlay env props updates currentSettings"
proof (cases "exists_result env (overlayWindowId (pp_pluginId props) (pp_overlayId props))")
  case None
  then show ?thesis by (simp add: applyToOverlay_def Let_def)
next
  case (Some b)
  then show ?thesis by (cases b) (simp_all add: applyToOverlay_def Let_def)
qed

lemma spawn_in_running_branch:
  assumes "exists_result env (overlayWindowId (pp_pluginId props) (pp_overlayId props)) = Some True"
  shows "SpawnOverlay cfg \<notin> set (out_calls (applyToOverlay env props updates currentSettings))"
proof -
  let ?wid = "overlayWindowId (pp_pluginId props) (pp_overlayId props)"
  let ?io0 = "\<lparr>io_calls = [OverlayExists ?wid], io_rejected = False\<rparr>"
  show ?thesis
  proof (cases "js_prop updates ''enabled'' = JBool False")
    case True
    with assms show ?thesis
      by (simp add: applyToOverlay_def Let_def invoke_fresh)
  next
    case False
    define io1 where "io1 = when_io (js_prop updates ''enabled'' = JBool True)
                                (invoke env (OverlaySetVisible ?wid (JBool True))) ?io0"
    define io2 where "io2 = when_io
                                (js_prop updates ''x'' \<noteq> JUndefined \<or>
                                 js_prop updates ''y'' \<noteq> JUndefined \<or>
                                 js_prop updates ''width'' \<noteq> JUndefined \<or>
                                 js_prop updates ''height'' \<noteq> JUndefined)
                                (invoke env
                                   (OverlayUpdateGeometry ?wid
                                      (js_prop currentSettings ''x'')
                                      (js_prop currentSettings ''y'')
                                      (js_prop currentSettings ''width'')
                                      (js_prop currentSettings ''height''))) io1"
    define io3 where "io3 = when_io (js_prop updates ''clickThrough'' \<noteq> JUndefined)
                                (invoke env
                                   (OverlaySetClickThrough ?wid (js_prop updates ''clickThrough''))) io2"
    define io4 where "io4 = when_io (js_prop updates ''alwaysOnTop'' \<noteq> JUndefined)
                                (invoke env
                                   (OverlaySetAlwaysOnTop ?wid (js_prop updates ''alwaysOnTop''))) io3"
    have 1: "SpawnOverlay cfg \<notin> set (io_calls io1)"
      unfolding io1_def using io_calls_when[of _ env "OverlaySetVisible ?wid (JBool True)" ?io0] by auto
    have 2: "SpawnOverlay cfg \<notin> set (io_calls io2)"
      unfolding io2_def using 1 io_calls_when[of _ env _ io1] by fastforce
    have 3: "SpawnOverlay cfg \<notin> set (io_calls io3)"
      unfolding io3_def using 2 io_calls_when[of _ env _ io2] by fastforce
    have 4: "SpawnOverlay cfg \<notin> set (io_calls io4)"
      unfolding io4_def using 3 io_calls_when[of _ env _ io3] by fastforce
    have "out_calls (applyToOverlay env props updates currentSettings) = io_calls io4"
      using assms False
      by (simp add: applyToOverlay_def Let_def io1_def io2_def io3_def io4_def)
    with 4 show ?thesis by simp
  qed
qed

text \<open>
  Claim C10. Every \<^verbatim>\<open>spawn_overlay\<close> command issued by the reconciler has
  \<^verbatim>\<open>frameless: true\<close> in its config, and the manifest's \<^verbatim>\<open>frameless\<close> flag has no
  influence on anything the reconciler does.
\<close>

theorem C10_spawn_frameless:
  "(SpawnOverlay cfg \<in> set (out_calls (applyToOverlay env props updates currentSettings)) \<longrightarrow>
      cfg_frameless cfg = True) \<and>
   applyToOverlay env
       (props\<lparr>pp_overlayDefinition := (pp_overlayDefinition props)\<lparr>def_frameless := fl\<rparr>\<rparr>)
       updates currentSettings =
     applyToOverlay env props updates currentSettings"
proof -
  let ?wid = "overlayWindowId (pp_pluginId props) (pp_overlayId props)"
  have "cfg_frameless cfg = True"
    if m: "SpawnOverlay cfg \<in> set (out_calls (applyToOverlay env props updates currentSettings))"
  proof (cases "exists_result env ?wid")
    case None
    with m show ?thesis by (simp add: applyToOverlay_def Let_def)
  next
    case (Some b)
    show ?thesis
    proof (cases b)
      case True
      with Some spawn_in_running_branch[of env props cfg updates currentSettings] m
      show ?thesis by simp
    next
      case False
      with Some m show ?thesis
        by (cases "js_prop updates ''enabled'' = JBool True")
           (auto simp: applyToOverlay_def Let_def invoke_fresh split: if_splits)
    qed
  qed
  then show ?thesis
    by (simp add: applyToOverlay_frameless_irrelevant)
qed

theorem C10_spawn_frameless_witness:
  "SpawnOverlay
      \<lparr>cfg_id = ''clock-main'', cfg_pluginId = ''clock'',
       cfg_entryPoint = ''yaof-plugin://clock/index.html#/'',
       cfg_width = JNum 300, cfg_height = JNum 200, cfg_x = JNum 810, cfg_y = JNum 440,
       cfg_clickThrough = JBool True, cfg_frameless = True\<rparr>
     \<in> set (out_calls (applyToOverlay (wm_answering False) clock_props [(''enabled'', JBool True)] clock_settings)) \<and>
   def_frameless (pp_overlayDefinition clock_props) = Some False"
proof -
  let ?cfg = "\<lparr>cfg_id = ''clock-main'', cfg_pluginId = ''clock'',
       cfg_entryPoint = ''yaof-plugin://clock/index.html#/'',
       cfg_width = JNum 300, cfg_height = JNum 200, cfg_x = JNum 810, cfg_y = JNum 440,
       cfg_clickThrough = JBool True, cfg_frameless = True\<rparr>"
  have m: "SpawnOverlay ?cfg \<in> set (out_calls (applyToOverlay (wm_answering False) clock_props [(''enabled'', JBool True)] clock_settings))"
    by (simp add: applyToOverlay_def Let_def invoke_def wm_answering_def clock_props_def
          clock_def_def clock_settings_def overlayWindowId_def js_prop_def)
  from C10_spawn_frameless[of ?cfg "wm_answering False" clock_props "[(''enabled'', JBool True)]" clock_settings] m
  have "cfg_frameless ?cfg = True" by blast
  with m show ?thesis by (simp add: clock_props_def clock_def_def)
qed


section \<open>Merging stored values with defaults\<close>

lemma obj_get_obj_set:
  "obj_get (obj_set obj k v) k' = (if k' = k then Some v else obj_get obj k')"
  by (induction obj) auto

lemma keys_obj_set:
  "map fst (obj_set obj k v) = (if k \<in> set (map fst obj) then map fst obj else map fst obj @ [k])"
  by (induction obj) force+

lemma obj_get_None_iff: "obj_get obj k = None \<longleftrightarrow> k \<notin> set (map fst obj)"
  by (induction obj) force+

lemma obj_get_distinct: "distinct (map fst obj) \<Longrightarrow> (k, v) \<in> set obj \<Longrightarrow> obj_get obj k = Some v"
  by (induction obj) (auto simp: rev_image_eqI)

lemma keys_obj_build:
  "distinct (map fst S) \<Longrightarrow> set (map fst S) \<inter> set (map fst acc) = {} \<Longrightarrow>
   map fst (obj_build g S acc) = map fst acc @ map fst S"
proof (induction S arbitrary: acc)
  case Nil
  then show ?case by simp
next
  case (Cons p S)
  obtain k f where p: "p = (k, f)" by (cases p)
  from Cons.prems p have fresh: "k \<notin> set (map fst acc)" and d: "distinct (map fst S)"
    and k: "k \<notin> set (map fst S)" and disj: "set (map fst S) \<inter> set (map fst acc) = {}"
    by auto
  have "set (map fst S) \<inter> set (map fst (obj_set acc k (g k f))) = {}"
    using fresh k disj by (auto simp: keys_obj_set)
  from Cons.IH[OF d this] show ?case
    using p fresh by (simp add: keys_obj_set)
qed

lemma get_obj_build:
  "distinct (map fst S) \<Longrightarrow>
   obj_get (obj_build g S acc) k =
     (case obj_get S k of Some f \<Rightarrow> Some (g k f) | None \<Rightarrow> obj_get acc k)"
proof (induction S arbitrary: acc)
  case Nil
  then show ?case by simp
next
  case (Cons p S)
  obtain k' f where p: "p = (k', f)" by (cases p)
  from Cons.prems p have d: "distinct (map fst S)" and k: "k' \<notin> set (map fst S)" by auto
  show ?case
  proof (cases "k' = k")
    case True
    with k have "obj_get S k = None" by (simp add: obj_get_None_iff)
    with Cons.IH[OF d, of "obj_set acc k' (g k' f)"] True p show ?thesis
      by (simp add: obj_get_obj_set)
  next
    case False
    with Cons.IH[OF d, of "obj_set acc k' (g k' f)"] p show ?thesis
      by (simp add: obj_get_obj_set split: option.splits)
  qed
qed

lemma form_merge_build:
  "form_merge S V acc = obj_build (\<lambda>k f. coalesce (js_prop V k) (getDefaultValue f)) S acc"
  by (induction S arbitrary: acc) auto

lemma form_defaults_build: "form_defaults S acc = obj_build (\<lambda>k f. getDefaultValue f) S acc"
  by (induction S arbitrary: acc) auto

lemma hook_defaults_build: "hook_defaults S acc = obj_build (\<lambda>k f. field_default f) S acc"
  by (induction S arbitrary: acc) auto

lemma categoryDefaults_build: "categoryDefaults S acc = obj_build (\<lambda>k f. getDefaultValue f) S acc"
  by (induction S arbitrary: acc) auto

lemma hook_load_loop_None:
  "hook_load_loop f s S acc = None \<longleftrightarrow> (\<exists>k \<in> set (map fst S). get_rejects f k)"
  by (induction f s S acc rule: hook_load_loop.induct) (auto simp: Let_def)

lemma hook_load_loop_build:
  "\<forall>k \<in> set (map fst S). \<not> get_rejects f k \<Longrightarrow>
   hook_load_loop f s S acc =
     Some (obj_build (\<lambda>k fd. if nullish (store_get s k) then field_default fd else store_get s k) S acc)"
  by (induction S arbitrary: acc) (auto simp: Let_def)

lemma obj_spread_Nil: "obj_spread a [] = a"
  by (simp add: obj_spread_def)

lemma obj_spread_Cons: "obj_spread a ((k, v) # us) = obj_spread (obj_set a k v) us"
  by (simp add: obj_spread_def)




lemma keys_obj_spread:
  "set (map fst (obj_spread a us)) = set (map fst a) \<union> set (map fst us)"
proof (induction us arbitrary: a)
  case Nil
  then show ?case by (simp add: obj_spread_Nil)
next
  case (Cons p us)
  obtain k' v' where p: "p = (k', v')" by (cases p)
  show ?case
    using Cons.IH[of "obj_set a k' v'"] p
    by (auto simp: obj_spread_Cons keys_obj_set split: if_splits)
qed



lemma store_set_entries_ok:
  "\<forall>k. \<not> set_rejects f k \<Longrightarrow>
   store_set_entries f us s =
     (True, s\<lparr>cache := obj_spread (cache s) us,
              writes := writes s @ map (\<lambda>(k, v). StoreSet k v) us\<rparr>)"
proof (induction us arbitrary: s)
  case Nil
  then show ?case by (simp add: obj_spread_Nil)
next
  case (Cons p us)
  obtain k v where p: "p = (k, v)" by (cases p)
  show ?case
    using Cons.IH[OF Cons.prems] Cons.prems p
    by (simp add: store_set_def obj_spread_Cons)
qed

lemma store_write_batch_ok:
  "\<forall>k. \<not> set_rejects f k \<Longrightarrow> \<not> save_rejects f \<Longrightarrow>
   store_write_batch f us s =
     (True, s\<lparr>cache := obj_spread (cache s) us,
              disk := obj_spread (cache s) us,
              writes := writes s @ map (\<lambda>(k, v). StoreSet k v) us @ [StoreSave]\<rparr>)"
  by (simp add: store_write_batch_def store_set_entries_ok store_save_def)

text \<open>
  The two defaults agree wherever a field that is not a category declares one.
\<close>

lemma getDefaultValue_declared:
  "getDefaultValue (StringField m (Some x)) = field_default (StringField m (Some x))"
  "getDefaultValue (NumberField m (Some n)) = field_default (NumberField m (Some n))"
  "getDefaultValue (BooleanField m (Some b)) = field_default (BooleanField m (Some b))"
  "getDefaultValue (SelectField m opts (Some x)) = field_default (SelectField m opts (Some x))"
  "getDefaultValue (ColorField m (Some x)) = field_default (ColorField m (Some x))"
  "getDefaultValue (SliderField m mn (Some n)) = field_default (SliderField m mn (Some n))"
  "getDefaultValue (KeybindField m (Some x)) = field_default (KeybindField m (Some x))"
  "getDefaultValue (MultiChoiceField m opts (Some xs)) = field_default (MultiChoiceField m opts (Some xs))"
  "getDefaultValue (OrderedListField m opts (Some xs)) = field_default (OrderedListField m opts (Some xs))"
  by (simp_all add: coalesce_def nullish_def)

text \<open>
  Claim C3, as stated, does not hold for the \<^verbatim>\<open>usePluginSettings\<close> hook, one of the two
  loaders it is about: the hook does not resolve a default, it reads \<^verbatim>\<open>field.default\<close>.
  With nothing stored for the sample plugin, the hook loads the category \<^verbatim>\<open>appearance\<close>
  as \<^verbatim>\<open>undefined\<close>, while the field's resolved default is the object of its nested
  defaults.
\<close>

theorem C3_merge_on_load_counterexample:
  "obj_get (ph_values (hook_loadSettings (load_opens empty_store) no_faults ''clock'' clock_schema ph_initial))
     ''appearance'' = Some JUndefined \<and>
   getDefaultValue
     (CategoryField (meta ''Appearance'') None
        [(''color'', ColorField (meta ''Color'') (Some ''#ff0000'')),
         (''size'', NumberField (meta ''Size'') (Some 12))]) =
     JObj [(''color'', JStr ''#ff0000''), (''size'', JNum 12)]"
  by (simp add: hook_loadSettings_def load_opens_def empty_store_def no_faults_def clock_schema_def
        ph_initial_def store_get_def js_prop_def nullish_def coalesce_def Let_def)

text \<open>
  Claim C3, amended. For a schema \<^verbatim>\<open>S\<close> (an object: its keys are distinct) and any stored
  mapping \<^verbatim>\<open>V\<close>, the settings produced on load have exactly the keys of \<^verbatim>\<open>S\<close>, in
  schema order, so stored keys outside \<^verbatim>\<open>S\<close> are ignored; and for each key the merged
  value is \<^verbatim>\<open>V[k]\<close> when that is present and non-null. Otherwise it is, in the settings
  form, the field's resolved default \<^verbatim>\<open>getDefaultValue(field)\<close>, which is never null or
  undefined; and in the \<^verbatim>\<open>usePluginSettings\<close> hook, which reads \<^verbatim>\<open>V\<close> from the store
  document, the declared \<^verbatim>\<open>field.default\<close> as it is. The two agree wherever a field that
  is not a category declares a default; a category without one has no \<^verbatim>\<open>field.default\<close>.
\<close>

theorem C3_merge_on_load:
  assumes "distinct (obj_keys S)"
  shows "(get_all_result env pluginId = Some V \<longrightarrow>
            obj_keys (fs_values (form_loadSettings env pluginId S st)) = obj_keys S \<and>
            (\<forall>k f. (k, f) \<in> set S \<longrightarrow>
               obj_get (fs_values (form_loadSettings env pluginId S st)) k =
                 Some (if nullish (js_prop V k) then getDefaultValue f else js_prop V k))) \<and>
         (load (pluginId @ ''-settings.json'') = Some s \<and>
          (\<forall>k \<in> set (obj_keys S). \<not> get_rejects faults k) \<longrightarrow>
            obj_keys (ph_values (hook_loadSettings load faults pluginId S hst)) = obj_keys S \<and>
            (\<forall>k f. (k, f) \<in> set S \<longrightarrow>
               obj_get (ph_values (hook_loadSettings load faults pluginId S hst)) k =
                 Some (if nullish (js_prop (cache s) k) then field_default f else js_prop (cache s) k))) \<and>
         \<not> nullish (getDefaultValue fld) \<and>
         ((\<forall>m d nested. fld \<noteq> CategoryField m d nested) \<and> field_default fld \<noteq> JUndefined \<longrightarrow>
            getDefaultValue fld = field_default fld) \<and>
         field_default (CategoryField m0 None nested0) = JUndefined"
proof -
  from assms have d: "distinct (map fst S)" by (simp add: obj_keys_def)
  have form: "obj_keys (form_merge S V []) = obj_keys S"
    using keys_obj_build[OF d, of "[]"] by (simp add: form_merge_build obj_keys_def)
  have formv: "obj_get (form_merge S V []) k =
      Some (if nullish (js_prop V k) then getDefaultValue f else js_prop V k)"
    if "(k, f) \<in> set S" for k f
    using get_obj_build[OF d, of "\<lambda>k f. coalesce (js_prop V k) (getDefaultValue f)" "[]" k]
      obj_get_distinct[OF d that]
    by (simp add: form_merge_build coalesce_def)
  let ?g = "\<lambda>k fd. if nullish (store_get s k) then field_default fd else store_get s k"
  have hook: "obj_keys (obj_build ?g S []) = obj_keys S"
    using keys_obj_build[OF d, of "[]"] by (simp add: obj_keys_def)
  have hookv: "obj_get (obj_build ?g S []) k =
      Some (if nullish (js_prop (cache s) k) then field_default f else js_prop (cache s) k)"
    if "(k, f) \<in> set S" for k f
    using get_obj_build[OF d, of ?g "[]" k] obj_get_distinct[OF d that]
    by (simp add: store_get_def)
  have loaders: "(get_all_result env pluginId = Some V \<longrightarrow>
            obj_keys (fs_values (form_loadSettings env pluginId S st)) = obj_keys S \<and>
            (\<forall>k f. (k, f) \<in> set S \<longrightarrow>
               obj_get (fs_values (form_loadSettings env pluginId S st)) k =
                 Some (if nullish (js_prop V k) then getDefaultValue f else js_prop V k))) \<and>
         (load (pluginId @ ''-settings.json'') = Some s \<and>
          (\<forall>k \<in> set (obj_keys S). \<not> get_rejects faults k) \<longrightarrow>
            obj_keys (ph_values (hook_loadSettings load faults pluginId S hst)) = obj_keys S \<and>
            (\<forall>k f. (k, f) \<in> set S \<longrightarrow>
               obj_get (ph_values (hook_loadSettings load faults pluginId S hst)) k =
                 Some (if nullish (js_prop (cache s) k) then field_default f else js_prop (cache s) k)))"
    using form formv hook hookv
    by (auto simp: form_loadSettings_def hook_loadSettings_def Let_def hook_load_loop_build obj_keys_def)
  have never: "\<not> nullish (getDefaultValue fld)"
    by (cases fld) (auto simp: coalesce_def nullish_def split: option.splits list.splits)
  have agree: "getDefaultValue fld = field_default fld"
    if "\<forall>m d nested. fld \<noteq> CategoryField m d nested" "field_default fld \<noteq> JUndefined"
    using that
    by (cases fld) (auto simp: coalesce_def nullish_def split: option.splits)
  have cat: "field_default (CategoryField m0 None nested0) = JUndefined" by simp
  from loaders never agree cat show ?thesis by blast
qed

theorem C3_merge_on_load_witness:
  "distinct (obj_keys clock_schema) \<and>
   obj_keys (fs_values (form_loadSettings clock_form_env ''clock'' clock_schema fs_initial)) =
     [''format'', ''showSeconds'', ''appearance''] \<and>
   obj_get (fs_values (form_loadSettings clock_form_env ''clock'' clock_schema fs_initial)) ''format'' =
     Some (JStr ''12h'') \<and>
   obj_get (fs_values (form_loadSettings clock_form_env ''clock'' clock_schema fs_initial)) ''showSeconds'' =
     Some (JBool True) \<and>
   obj_keys (ph_values (hook_loadSettings (load_opens clock_store) no_faults ''clock'' clock_schema ph_initial)) =
     [''format'', ''showSeconds'', ''appearance''] \<and>
   obj_get (ph_values (hook_loadSettings (load_opens clock_store) no_faults ''clock'' clock_schema ph_initial)) ''showSeconds'' =
     Some (JBool True)"
proof -
  have d: "distinct (obj_keys clock_schema)"
    by (simp add: clock_schema_def obj_keys_def)
  note T = C3_merge_on_load[OF d, of clock_form_env "''clock''" clock_stored fs_initial
      "load_opens clock_store" clock_store no_faults ph_initial]
  have g: "get_all_result clock_form_env ''clock'' = Some clock_stored"
    by (simp add: clock_form_env_def)
  have h: "\<forall>k \<in> set (obj_keys clock_schema). \<not> get_rejects no_faults k"
    by (simp add: no_faults_def)
  have lo: "load_opens clock_store (''clock'' @ ''-settings.json'') = Some clock_store"
    by (simp add: load_opens_def)
  have m1: "(''format'', SelectField (meta ''Format'') [(''24h'', ''24 hour''), (''12h'', ''12 hour'')] (Some ''24h'')) \<in> set clock_schema"
    and m2: "(''showSeconds'', BooleanField (meta ''Show seconds'') (Some True)) \<in> set clock_schema"
    by (simp_all add: clock_schema_def)
  from T g have k1: "obj_keys (fs_values (form_loadSettings clock_form_env ''clock'' clock_schema fs_initial)) = obj_keys clock_schema"
    by blast
  from T g m1 have v1: "obj_get (fs_values (form_loadSettings clock_form_env ''clock'' clock_schema fs_initial)) ''format'' =
      Some (if nullish (js_prop clock_stored ''format'') then getDefaultValue (SelectField (meta ''Format'') [(''24h'', ''24 hour''), (''12h'', ''12 hour'')] (Some ''24h'')) else js_prop clock_stored ''format'')"
    by blast
  from T g m2 have v2: "obj_get (fs_values (form_loadSettings clock_form_env ''clock'' clock_schema fs_initial)) ''showSeconds'' =
      Some (if nullish (js_prop clock_stored ''showSeconds'') then getDefaultValue (BooleanField (meta ''Show seconds'') (Some True)) else js_prop clock_stored ''showSeconds'')"
    by blast
  from T h lo have k2: "obj_keys (ph_values (hook_loadSettings (load_opens clock_store) no_faults ''clock'' clock_schema ph_initial)) = obj_keys clock_schema"
    by blast
  from T h lo m2 have v3: "obj_get (ph_values (hook_loadSettings (load_opens clock_store) no_faults ''clock'' clock_schema ph_initial)) ''showSeconds'' =
      Some (if nullish (js_prop (cache clock_store) ''showSeconds'') then field_default (BooleanField (meta ''Show seconds'') (Some True)) else js_prop (cache clock_store) ''showSeconds'')"
    by blast
  have e1: "obj_keys clock_schema = [''format'', ''showSeconds'', ''appearance'']"
    by (simp add: clock_schema_def obj_keys_def)
  have e2: "js_prop clock_stored ''format'' = JStr ''12h''" "js_prop clock_stored ''showSeconds'' = JUndefined"
    by (simp_all add: clock_stored_def js_prop_def)
  show ?thesis
    using d k1 v1 v2 k2 v3
    by (simp add: e1 e2 nullish_def coalesce_def clock_store_def)
qed

text \<open>
  Claim C6, as stated, does not hold: the merge does not descend into a stored category
  object. With the sample plugin the stored \<^verbatim>\<open>appearance\<close> object holds \<^verbatim>\<open>color\<close> only;
  after loading, its nested \<^verbatim>\<open>size\<close> is still \<^verbatim>\<open>undefined\<close>, not the nested default 12.
\<close>

theorem C6_category_merge_counterexample:
  "nested_prop
     (js_prop (fs_values (form_loadSettings clock_form_env ''clock'' clock_schema fs_initial)) ''appearance'')
     ''size'' = JUndefined \<and>
   getDefaultValue (NumberField (meta ''Size'') (Some 12)) = JNum 12"
  by (simp add: form_loadSettings_def clock_form_env_def clock_schema_def clock_stored_def
        fs_initial_def js_prop_def coalesce_def nullish_def Let_def)

text \<open>
  Claim C6, amended. For a category field of the schema: when the stored value for it is
  absent or null, the merged value is the object of nested defaults that
  \<^verbatim>\<open>getDefaultValue\<close> builds, which has exactly the category's nested keys, each
  holding its nested field's default (recursively for nested categories); when a stored
  value is present, it is taken whole, as stored.
\<close>

theorem C6_category_merge:
  assumes "distinct (obj_keys S)"
    and "(k, CategoryField m d nested) \<in> set S"
    and "distinct (obj_keys nested)"
    and "get_all_result env pluginId = Some V"
  shows "(nullish (js_prop V k) \<longrightarrow>
            obj_get (fs_values (form_loadSettings env pluginId S st)) k =
              Some (JObj (categoryDefaults nested [])) \<and>
            obj_keys (categoryDefaults nested []) = obj_keys nested \<and>
            (\<forall>nk nf. (nk, nf) \<in> set nested \<longrightarrow>
               nested_prop (JObj (categoryDefaults nested [])) nk = getDefaultValue nf)) \<and>
         (\<not> nullish (js_prop V k) \<longrightarrow>
            obj_get (fs_values (form_loadSettings env pluginId S st)) k = Some (js_prop V k))"
proof -
  from assms(1) have d: "distinct (map fst S)" by (simp add: obj_keys_def)
  from assms(3) have dn: "distinct (map fst nested)" by (simp add: obj_keys_def)
  have merged: "fs_values (form_loadSettings env pluginId S st) = form_merge S V []"
    using assms(4) by (simp add: form_loadSettings_def Let_def)
  have v: "obj_get (form_merge S V []) k =
      Some (coalesce (js_prop V k) (getDefaultValue (CategoryField m d nested)))"
    using get_obj_build[OF d, of "\<lambda>k f. coalesce (js_prop V k) (getDefaultValue f)" "[]" k]
      obj_get_distinct[OF d assms(2)]
    by (simp add: form_merge_build)
  have keys: "obj_keys (categoryDefaults nested []) = obj_keys nested"
    using keys_obj_build[OF dn, of "[]"] by (simp add: categoryDefaults_build obj_keys_def)
  have nv: "nested_prop (JObj (categoryDefaults nested [])) nk = getDefaultValue nf"
    if "(nk, nf) \<in> set nested" for nk nf
    using get_obj_build[OF dn, of "\<lambda>k f. getDefaultValue f" "[]" nk] obj_get_distinct[OF dn that]
    by (simp add: categoryDefaults_build js_prop_def)
  show ?thesis
    using v keys nv by (simp add: merged coalesce_def)
qed

theorem C6_category_merge_witness:
  "distinct (obj_keys clock_schema) \<and>
   obj_get (fs_values (form_loadSettings
       \<lparr>get_all_result = (\<lambda>p. Some []), form_resolves = (\<lambda>c. True)\<rparr> ''clock'' clock_schema fs_initial))
     ''appearance'' = Some (JObj [(''color'', JStr ''#ff0000''), (''size'', JNum 12)]) \<and>
   nested_prop (JObj (categoryDefaults
       [(''color'', ColorField (meta ''Color'') (Some ''#ff0000'')),
        (''size'', NumberField (meta ''Size'') (Some 12))] [])) ''size'' = JNum 12 \<and>
   obj_get (fs_values (form_loadSettings clock_form_env ''clock'' clock_schema fs_initial)) ''appearance'' =
     Some (JObj [(''color'', JStr ''#00ff00'')])"
proof -
  let ?fields = "[(''color'', ColorField (meta ''Color'') (Some ''#ff0000'')),
        (''size'', NumberField (meta ''Size'') (Some 12))]"
  let ?env0 = "\<lparr>get_all_result = (\<lambda>p. Some []), form_resolves = (\<lambda>c. True)\<rparr>"
  have d: "distinct (obj_keys clock_schema)"
    by (simp add: clock_schema_def obj_keys_def)
  have m: "(''appearance'', CategoryField (meta ''Appearance'') None ?fields) \<in> set clock_schema"
    by (simp add: clock_schema_def)
  have dn: "distinct (obj_keys ?fields)" by (simp add: obj_keys_def)
  have g0: "get_all_result ?env0 ''clock'' = Some []" by simp
  have g1: "get_all_result clock_form_env ''clock'' = Some clock_stored"
    by (simp add: clock_form_env_def)
  have n0: "nullish (js_prop [] ''appearance'')" by (simp add: js_prop_def nullish_def)
  have n1: "\<not> nullish (js_prop clock_stored ''appearance'')"
    by (simp add: js_prop_def nullish_def clock_stored_def)
  have ms: "(''size'', NumberField (meta ''Size'') (Some 12)) \<in> set ?fields" by simp
  note T0 = C6_category_merge[OF d m dn g0, of fs_initial]
  note T1 = C6_category_merge[OF d m dn g1, of fs_initial]
  from T0 n0 have a: "obj_get (fs_values (form_loadSettings ?env0 ''clock'' clock_schema fs_initial)) ''appearance'' =
      Some (JObj (categoryDefaults ?fields []))"
    by blast
  from T0 n0 ms have b: "nested_prop (JObj (categoryDefaults ?fields [])) ''size'' =
      getDefaultValue (NumberField (meta ''Size'') (Some 12))"
    by blast
  from T1 n1 have c: "obj_get (fs_values (form_loadSettings clock_form_env ''clock'' clock_schema fs_initial)) ''appearance'' =
      Some (js_prop clock_stored ''appearance'')"
    by blast
  have e: "categoryDefaults ?fields [] = [(''color'', JStr ''#ff0000''), (''size'', JNum 12)]"
    by (simp add: coalesce_def nullish_def)
  have e2: "js_prop clock_stored ''appearance'' = JObj [(''color'', JStr ''#00ff00'')]"
    by (simp add: js_prop_def clock_stored_def)
  from d a b c show ?thesis
    by (simp add: e e2 coalesce_def nullish_def)
qed


section \<open>Saving and resetting\<close>

lemma save_and_emit_calls:
  "fs_calls (save_and_emit env pluginId vals st) =
     fs_calls st @
       (if form_resolves env (InvokeSetAll pluginId vals)
        then [InvokeSetAll pluginId vals,
              EmitEvent (''yaof:settings:changed:'' @ pluginId) pluginId vals]
        else [InvokeSetAll pluginId vals])"
  by (simp add: save_and_emit_def Let_def)

lemma save_and_emit_timer:
  "fs_debounceTimerRef (save_and_emit env pluginId vals st) = fs_debounceTimerRef st"
  by (simp add: save_and_emit_def Let_def)

text \<open>
  Claim C5, as stated, does not hold for the reset action. In the settings form of the
  sample plugin, right after loading, \<^verbatim>\<open>handleReset\<close> issues no backend call at all and
  leaves a debounce timer of 500 ms armed: the write is delayed, not immediate.
\<close>

theorem C5_save_reset_counterexample:
  "fs_calls (handleReset clock_schema
              (form_loadSettings clock_form_env ''clock'' clock_schema fs_initial)) =
     [InvokeGetAll ''clock''] \<and>
   fs_debounceTimerRef (handleReset clock_schema
              (form_loadSettings clock_form_env ''clock'' clock_schema fs_initial)) = Some 500"
  by (simp add: handleReset_def form_loadSettings_def Let_def fs_initial_def
        clock_form_env_def FORM_DEBOUNCE_DELAY_def)

lemma overlay_reset_pending:
  "resetToDefaults ost =
     ost\<lparr>oh_settings := obj_spread (oh_settings ost) (oh_manifestDefaults ost),
         oh_pendingUpdatesRef := obj_spread (oh_pendingUpdatesRef ost) (oh_manifestDefaults ost),
         oh_debounceTimerRef :=
           Some (HOOK_DEBOUNCE_DELAY, obj_spread (oh_settings ost) (oh_manifestDefaults ost))\<rparr>"
  by (simp add: resetToDefaults_def updateSettings_def debouncedApply_def Let_def)

lemma obj_spread_nonempty: "us \<noteq> [] \<Longrightarrow> obj_spread a us \<noteq> []"
proof -
  assume "us \<noteq> []"
  then obtain k x rest where us: "us = (k, x) # rest" by (cases us) auto
  have "fst (k, x) \<in> set (map fst (obj_spread a us))"
    using keys_obj_spread[of a us] us by simp
  then show ?thesis by fastforce
qed

text \<open>
  Claim C5, amended. The explicit save action cancels the pending debounce timer and
  writes at once: \<^verbatim>\<open>plugin_settings_set_all\<close> is the first call it issues, followed by
  the publish when the write resolves. The reset action also cancels the pending timer,
  but it writes nothing at once and schedules another delayed flush. In the settings
  form it puts the defaults into the local state and arms a new debounce timer; nothing
  is issued before that timer expires, and at expiry the defaults are written and, the
  write resolving, published. In the overlay hook \<^verbatim>\<open>resetToDefaults\<close> goes through
  \<^verbatim>\<open>updateSettings\<close>: no store or window call at once and a freshly armed timer; nothing
  is written before it expires, and at expiry, when the store is open and its calls
  resolve, the buffer, which now holds the entries of the (non-empty) defaults object, is
  written with one \<^verbatim>\<open>set\<close> per entry followed by one \<^verbatim>\<open>save\<close>.
\<close>

theorem C5_save_reset:
  "fs_debounceTimerRef (handleSave env pluginId st) = None \<and>
   take (Suc (length (fs_calls st))) (fs_calls (handleSave env pluginId st)) =
     fs_calls st @ [InvokeSetAll pluginId (fs_values st)] \<and>
   (form_resolves env (InvokeSetAll pluginId (fs_values st)) \<longrightarrow>
      fs_calls (handleSave env pluginId st) =
        fs_calls st @
          [InvokeSetAll pluginId (fs_values st),
           EmitEvent (''yaof:settings:changed:'' @ pluginId) pluginId (fs_values st)]) \<and>
   fs_calls (handleReset S st) = fs_calls st \<and>
   fs_values (handleReset S st) = form_defaults S [] \<and>
   fs_debounceTimerRef (handleReset S st) = Some FORM_DEBOUNCE_DELAY \<and>
   (d < FORM_DEBOUNCE_DELAY \<longrightarrow>
      fs_calls (form_elapse env pluginId d (handleReset S st)) = fs_calls st) \<and>
   (FORM_DEBOUNCE_DELAY \<le> d \<and> form_resolves env (InvokeSetAll pluginId (form_defaults S [])) \<longrightarrow>
      fs_calls (form_elapse env pluginId d (handleReset S st)) =
        fs_calls st @
          [InvokeSetAll pluginId (form_defaults S []),
           EmitEvent (''yaof:settings:changed:'' @ pluginId) pluginId (form_defaults S [])]) \<and>
   oh_store (resetToDefaults ost) = oh_store ost \<and>
   oh_wm_calls (resetToDefaults ost) = oh_wm_calls ost \<and>
   oh_debounceTimerRef (resetToDefaults ost) =
     Some (HOOK_DEBOUNCE_DELAY, obj_spread (oh_settings ost) (oh_manifestDefaults ost)) \<and>
   (d < HOOK_DEBOUNCE_DELAY \<longrightarrow>
      oh_store (overlay_elapse penv ctx d (resetToDefaults ost)) = oh_store ost \<and>
      oh_wm_calls (overlay_elapse penv ctx d (resetToDefaults ost)) = oh_wm_calls ost) \<and>
   (HOOK_DEBOUNCE_DELAY \<le> d \<and> oh_store ost = Some s \<and> oh_manifestDefaults ost \<noteq> [] \<and>
    (\<forall>k. \<not> set_rejects (pe_faults penv) k) \<and> \<not> save_rejects (pe_faults penv) \<longrightarrow>
      oh_store (overlay_elapse penv ctx d (resetToDefaults ost)) =
        Some (s\<lparr>cache := obj_spread (cache s)
                            (obj_spread (oh_pendingUpdatesRef ost) (oh_manifestDefaults ost)),
                disk := obj_spread (cache s)
                            (obj_spread (oh_pendingUpdatesRef ost) (oh_manifestDefaults ost)),
                writes := writes s @
                  map (\<lambda>(k, v). StoreSet k v)
                    (obj_spread (oh_pendingUpdatesRef ost) (oh_manifestDefaults ost)) @
                  [StoreSave]\<rparr>))"
proof -
  have s1: "fs_debounceTimerRef (handleSave env pluginId st) = None"
    by (simp add: handleSave_def save_and_emit_timer)
  have s2: "take (Suc (length (fs_calls st))) (fs_calls (handleSave env pluginId st)) =
     fs_calls st @ [InvokeSetAll pluginId (fs_values st)]"
    by (simp add: handleSave_def save_and_emit_calls)
  have s3: "fs_calls (handleSave env pluginId st) =
        fs_calls st @
          [InvokeSetAll pluginId (fs_values st),
           EmitEvent (''yaof:settings:changed:'' @ pluginId) pluginId (fs_values st)]"
    if "form_resolves env (InvokeSetAll pluginId (fs_values st))"
    using that by (simp add: handleSave_def save_and_emit_calls)
  have r1: "fs_calls (handleReset S st) = fs_calls st"
    and r2: "fs_values (handleReset S st) = form_defaults S []"
    and r3: "fs_debounceTimerRef (handleReset S st) = Some FORM_DEBOUNCE_DELAY"
    and r4: "fs_latestValuesRef (handleReset S st) = form_defaults S []"
    by (simp_all add: handleReset_def Let_def)
  have e1: "fs_calls (form_elapse env pluginId d (handleReset S st)) = fs_calls st"
    if "d < FORM_DEBOUNCE_DELAY"
    using that by (simp add: form_elapse_def r1 r3)
  have e2: "fs_calls (form_elapse env pluginId d (handleReset S st)) =
        fs_calls st @
          [InvokeSetAll pluginId (form_defaults S []),
           EmitEvent (''yaof:settings:changed:'' @ pluginId) pluginId (form_defaults S [])]"
    if "FORM_DEBOUNCE_DELAY \<le> d" "form_resolves env (InvokeSetAll pluginId (form_defaults S []))"
    using that by (simp add: form_elapse_def r1 r3 r4 debouncedSave_def save_and_emit_calls)
  have o: "oh_store (resetToDefaults ost) = oh_store ost"
    "oh_wm_calls (resetToDefaults ost) = oh_wm_calls ost"
    "oh_debounceTimerRef (resetToDefaults ost) =
       Some (HOOK_DEBOUNCE_DELAY, obj_spread (oh_settings ost) (oh_manifestDefaults ost))"
    by (simp_all add: overlay_reset_pending)
  have o1: "oh_store (overlay_elapse penv ctx d (resetToDefaults ost)) = oh_store ost \<and>
      oh_wm_calls (overlay_elapse penv ctx d (resetToDefaults ost)) = oh_wm_calls ost"
    if "d < HOOK_DEBOUNCE_DELAY"
    using that by (simp add: overlay_elapse_def overlay_reset_pending)
  have o2: "oh_store (overlay_elapse penv ctx d (resetToDefaults ost)) =
        Some (s\<lparr>cache := obj_spread (cache s)
                            (obj_spread (oh_pendingUpdatesRef ost) (oh_manifestDefaults ost)),
                disk := obj_spread (cache s)
                            (obj_spread (oh_pendingUpdatesRef ost) (oh_manifestDefaults ost)),
                writes := writes s @
                  map (\<lambda>(k, v). StoreSet k v)
                    (obj_spread (oh_pendingUpdatesRef ost) (oh_manifestDefaults ost)) @
                  [StoreSave]\<rparr>)"
    if d: "HOOK_DEBOUNCE_DELAY \<le> d" and st: "oh_store ost = Some s"
      and ne: "oh_manifestDefaults ost \<noteq> []"
      and ok: "\<forall>k. \<not> set_rejects (pe_faults penv) k" "\<not> save_rejects (pe_faults penv)"
  proof -
    let ?p = "obj_spread (oh_pendingUpdatesRef ost) (oh_manifestDefaults ost)"
    have pne: "?p \<noteq> []" using obj_spread_nonempty[OF ne] .
    show ?thesis
      using d st pne
      by (simp add: overlay_elapse_def overlay_reset_pending overlay_flush_def Let_def
            store_write_batch_ok[OF ok] record_apply_def)
  qed
  from s1 s2 s3 r1 r2 r3 e1 e2 o o1 o2 show ?thesis by blast
qed


theorem C5_save_reset_witness:
  "form_resolves clock_form_env (InvokeSetAll ''clock'' clock_stored) \<and>
   fs_calls (handleSave clock_form_env ''clock''
      (fs_initial\<lparr>fs_values := clock_stored, fs_debounceTimerRef := Some 120\<rparr>)) =
     [InvokeSetAll ''clock'' clock_stored,
      EmitEvent ''yaof:settings:changed:clock'' ''clock'' clock_stored] \<and>
   (100::nat) < FORM_DEBOUNCE_DELAY \<and>
   fs_calls (form_elapse clock_form_env ''clock'' 100 (handleReset clock_schema fs_initial)) = [] \<and>
   FORM_DEBOUNCE_DELAY \<le> 500 \<and>
   fs_calls (form_elapse clock_form_env ''clock'' 500 (handleReset clock_schema fs_initial)) =
     [InvokeSetAll ''clock'' (form_defaults clock_schema []),
      EmitEvent ''yaof:settings:changed:clock'' ''clock'' (form_defaults clock_schema [])] \<and>
   oh_store (overlay_elapse clock_env clock_ctx 100
       (resetToDefaults (overlay_loadSettings clock_env clock_ctx oh_initial))) = Some empty_store \<and>
   oh_store (overlay_elapse clock_env clock_ctx 300
       (resetToDefaults (overlay_loadSettings clock_env clock_ctx oh_initial))) =
     Some \<lparr>cache = [(''enabled'', JBool True), (''width'', JNum 300), (''height'', JNum 200),
                     (''x'', JNum 810), (''y'', JNum 440), (''positionPreset'', JStr ''center''),
                     (''opacity'', JNum 100), (''clickThrough'', JBool True),
                     (''alwaysOnTop'', JBool True)],
           disk = [(''enabled'', JBool True), (''width'', JNum 300), (''height'', JNum 200),
                    (''x'', JNum 810), (''y'', JNum 440), (''positionPreset'', JStr ''center''),
                    (''opacity'', JNum 100), (''clickThrough'', JBool True),
                    (''alwaysOnTop'', JBool True)],
           writes = [StoreSet ''enabled'' (JBool True), StoreSet ''width'' (JNum 300),
                     StoreSet ''height'' (JNum 200), StoreSet ''x'' (JNum 810),
                     StoreSet ''y'' (JNum 440), StoreSet ''positionPreset'' (JStr ''center''),
                     StoreSet ''opacity'' (JNum 100), StoreSet ''clickThrough'' (JBool True),
                     StoreSet ''alwaysOnTop'' (JBool True), StoreSave]\<rparr>"
proof -
  let ?st = "fs_initial\<lparr>fs_values := clock_stored, fs_debounceTimerRef := Some 120\<rparr>"
  let ?ost = "overlay_loadSettings clock_env clock_ctx oh_initial"
  let ?D = "[(''enabled'', JBool True), (''width'', JNum 300), (''height'', JNum 200),
      (''x'', JNum 810), (''y'', JNum 440), (''positionPreset'', JStr ''center''),
      (''opacity'', JNum 100), (''clickThrough'', JBool True), (''alwaysOnTop'', JBool True)]"
  have a: "form_resolves clock_form_env (InvokeSetAll ''clock'' (fs_values ?st))"
    and a': "form_resolves clock_form_env (InvokeSetAll ''clock'' clock_stored)"
    and b: "form_resolves clock_form_env (InvokeSetAll ''clock'' (form_defaults clock_schema []))"
    by (simp_all add: clock_form_env_def)
  have lt: "(100::nat) < FORM_DEBOUNCE_DELAY" and ge: "FORM_DEBOUNCE_DELAY \<le> 500"
    by (simp_all add: FORM_DEBOUNCE_DELAY_def)
  have hlt: "(100::nat) < HOOK_DEBOUNCE_DELAY" and hge: "HOOK_DEBOUNCE_DELAY \<le> 300"
    by (simp_all add: HOOK_DEBOUNCE_DELAY_def)
  have md: "manifest_defaults (oc_overlayDef clock_ctx) = ?D"
    by (simp add: manifest_defaults_def clock_ctx_def clock_def_def calculateDefaultPosition_def Let_def)
  have ld: "override_loop no_faults empty_store ks acc = Some acc" for ks acc
    by (induction ks arbitrary: acc)
       (simp_all add: no_faults_def empty_store_def store_get_def js_prop_def nullish_def)
  have h1: "pe_load clock_env (storeName (oc_pluginId clock_ctx) (oc_overlayId clock_ctx)) = Some empty_store"
    by (simp add: clock_env_def)
  have o1: "oh_store ?ost = Some empty_store"
    and o2: "oh_manifestDefaults ?ost = ?D"
    and o3: "oh_pendingUpdatesRef ?ost = []"
    by (simp_all add: overlay_loadSettings_def h1 md ld Let_def record_apply_def clock_env_def
          oh_initial_def)
  have ne: "oh_manifestDefaults ?ost \<noteq> []" by (simp add: o2)
  have ok: "\<forall>k. \<not> set_rejects (pe_faults clock_env) k" "\<not> save_rejects (pe_faults clock_env)"
    by (simp_all add: clock_env_def no_faults_def)
  from C5_save_reset[of clock_form_env "''clock''" ?st clock_schema 0] a
  have 1: "fs_calls (handleSave clock_form_env ''clock'' ?st) =
     fs_calls ?st @ [InvokeSetAll ''clock'' (fs_values ?st),
      EmitEvent (''yaof:settings:changed:'' @ ''clock'') ''clock'' (fs_values ?st)]"
    by blast
  from C5_save_reset[of clock_form_env "''clock''" fs_initial clock_schema 100] lt
  have 2: "fs_calls (form_elapse clock_form_env ''clock'' 100 (handleReset clock_schema fs_initial)) =
     fs_calls fs_initial"
    by blast
  from C5_save_reset[of clock_form_env "''clock''" fs_initial clock_schema 500] ge b
  have 3: "fs_calls (form_elapse clock_form_env ''clock'' 500 (handleReset clock_schema fs_initial)) =
     fs_calls fs_initial @ [InvokeSetAll ''clock'' (form_defaults clock_schema []),
      EmitEvent (''yaof:settings:changed:'' @ ''clock'') ''clock'' (form_defaults clock_schema [])]"
    by blast
  from C5_save_reset[where d = 100 and ost = ?ost and penv = clock_env and ctx = clock_ctx] hlt
  have 4: "oh_store (overlay_elapse clock_env clock_ctx 100 (resetToDefaults ?ost)) = oh_store ?ost"
    by blast
  from C5_save_reset[where d = 300 and ost = ?ost and penv = clock_env and ctx = clock_ctx
      and s = empty_store] hge o1 ne ok
  have 5: "oh_store (overlay_elapse clock_env clock_ctx 300 (resetToDefaults ?ost)) =
        Some (empty_store\<lparr>cache := obj_spread (cache empty_store)
                            (obj_spread (oh_pendingUpdatesRef ?ost) (oh_manifestDefaults ?ost)),
                disk := obj_spread (cache empty_store)
                            (obj_spread (oh_pendingUpdatesRef ?ost) (oh_manifestDefaults ?ost)),
                writes := writes empty_store @
                  map (\<lambda>(k, v). StoreSet k v)
                    (obj_spread (oh_pendingUpdatesRef ?ost) (oh_manifestDefaults ?ost)) @
                  [StoreSave]\<rparr>)"
    by blast
  have e: "obj_spread [] ?D = ?D" by (simp add: obj_spread_Cons obj_spread_Nil)
  have n4: "oh_store (overlay_elapse clock_env clock_ctx 100 (resetToDefaults ?ost)) = Some empty_store"
    by (simp only: 4 o1)
  have n5: "oh_store (overlay_elapse clock_env clock_ctx 300 (resetToDefaults ?ost)) =
     Some \<lparr>cache = ?D, disk = ?D,
           writes = map (\<lambda>(k, v). StoreSet k v) ?D @ [StoreSave]\<rparr>"
    unfolding 5 o2 o3 e by (simp add: empty_store_def e)
  from a' lt ge 1 2 3 have form: "form_resolves clock_form_env (InvokeSetAll ''clock'' clock_stored) \<and>
   fs_calls (handleSave clock_form_env ''clock'' ?st) =
     [InvokeSetAll ''clock'' clock_stored,
      EmitEvent ''yaof:settings:changed:clock'' ''clock'' clock_stored] \<and>
   (100::nat) < FORM_DEBOUNCE_DELAY \<and>
   fs_calls (form_elapse clock_form_env ''clock'' 100 (handleReset clock_schema fs_initial)) = [] \<and>
   FORM_DEBOUNCE_DELAY \<le> 500 \<and>
   fs_calls (form_elapse clock_form_env ''clock'' 500 (handleReset clock_schema fs_initial)) =
     [InvokeSetAll ''clock'' (form_defaults clock_schema []),
      EmitEvent ''yaof:settings:changed:clock'' ''clock'' (form_defaults clock_schema [])]"
    by (simp add: fs_initial_def)
  from n5 have n5b: "oh_store (overlay_elapse clock_env clock_ctx 300 (resetToDefaults ?ost)) =
     Some \<lparr>cache = ?D, disk = ?D,
           writes = [StoreSet ''enabled'' (JBool True), StoreSet ''width'' (JNum 300),
                     StoreSet ''height'' (JNum 200), StoreSet ''x'' (JNum 810),
                     StoreSet ''y'' (JNum 440), StoreSet ''positionPreset'' (JStr ''center''),
                     StoreSet ''opacity'' (JNum 100), StoreSet ''clickThrough'' (JBool True),
                     StoreSet ''alwaysOnTop'' (JBool True), StoreSave]\<rparr>"
    by simp
  from form n4 n5b show ?thesis by blast
qed

section \<open>Change broadcast and load failures\<close>

lemma keys_set_obj_build:
  "set (map fst (obj_build g S acc)) = set (map fst acc) \<union> set (map fst S)"
proof (induction S arbitrary: acc)
  case Nil
  then show ?case by simp
next
  case (Cons p S)
  obtain k f where p: "p = (k, f)" by (cases p)
  show ?case
    using Cons.IH[of "obj_set acc k (g k f)"] p
    by (auto simp: keys_obj_set split: if_splits)
qed

lemma keys_image_obj_build:
  "fst ` set (obj_build g S acc) = fst ` set acc \<union> fst ` set S"
  using keys_set_obj_build[of g S acc] by simp

lemma save_and_emit_values:
  "fs_values (save_and_emit env pluginId vals st) = fs_values st"
  "fs_latestValuesRef (save_and_emit env pluginId vals st) = fs_latestValuesRef st"
  by (simp_all add: save_and_emit_def Let_def)

lemma form_step_calls:
  "\<exists>new. fs_calls (form_step env pluginId S ev st) = fs_calls st @ new \<and>
     (\<forall>topic pid v. EmitEvent topic pid v \<in> set new \<longrightarrow>
        topic = ''yaof:settings:changed:'' @ pluginId \<and> pid = pluginId \<and>
        (v = fs_values st \<or> v = fs_latestValuesRef st))"
proof (cases ev)
  case (FormChange key x)
  then show ?thesis by (simp add: handleChange_def Let_def)
next
  case FormSave
  then show ?thesis by (simp add: handleSave_def save_and_emit_calls)
next
  case FormReset
  then show ?thesis by (simp add: handleReset_def Let_def)
next
  case (FormWait d)
  then show ?thesis
    by (cases "fs_debounceTimerRef st")
       (simp_all add: form_elapse_def debouncedSave_def save_and_emit_calls)
qed

lemma form_step_complete:
  assumes "complete_for S st"
  shows "complete_for S (form_step env pluginId S ev st)"
proof (cases ev)
  case (FormChange key x)
  with assms show ?thesis
    by (auto simp: complete_for_def handleChange_def Let_def obj_keys_def keys_obj_set)
next
  case FormSave
  with assms show ?thesis
    by (simp add: complete_for_def handleSave_def save_and_emit_values)
next
  case FormReset
  then show ?thesis
    by (simp add: complete_for_def handleReset_def Let_def form_defaults_build obj_keys_def
          keys_image_obj_build)
next
  case (FormWait d)
  with assms show ?thesis
    by (cases "fs_debounceTimerRef st")
       (simp_all add: complete_for_def form_elapse_def debouncedSave_def save_and_emit_values)
qed

lemma form_run_topic:
  "EmitEvent topic pid v \<in> set (fs_calls (form_run env pluginId S evs st)) \<Longrightarrow>
   EmitEvent topic pid v \<in> set (fs_calls st) \<or>
   (topic = ''yaof:settings:changed:'' @ pluginId \<and> pid = pluginId)"
proof (induction evs arbitrary: st)
  case Nil
  then show ?case by (simp add: form_run_def)
next
  case (Cons ev evs)
  from Cons.prems have "EmitEvent topic pid v \<in>
      set (fs_calls (form_run env pluginId S evs (form_step env pluginId S ev st)))"
    by (simp add: form_run_def)
  from Cons.IH[OF this] show ?case
  proof
    assume m: "EmitEvent topic pid v \<in> set (fs_calls (form_step env pluginId S ev st))"
    from form_step_calls[of env pluginId S ev st] obtain new where
      c: "fs_calls (form_step env pluginId S ev st) = fs_calls st @ new"
      and g: "\<forall>topic pid v. EmitEvent topic pid v \<in> set new \<longrightarrow>
        topic = ''yaof:settings:changed:'' @ pluginId \<and> pid = pluginId \<and>
        (v = fs_values st \<or> v = fs_latestValuesRef st)"
      by blast
    from m c g show ?thesis by auto
  next
    assume "topic = ''yaof:settings:changed:'' @ pluginId \<and> pid = pluginId"
    then show ?thesis by simp
  qed
qed

lemma form_run_complete:
  "complete_for S st \<Longrightarrow>
   EmitEvent topic pid v \<in> set (fs_calls (form_run env pluginId S evs st)) \<Longrightarrow>
   EmitEvent topic pid v \<in> set (fs_calls st) \<or>
   (topic = ''yaof:settings:changed:'' @ pluginId \<and> pid = pluginId \<and>
    set (obj_keys S) \<subseteq> set (obj_keys v))"
proof (induction evs arbitrary: st)
  case Nil
  then show ?case by (simp add: form_run_def)
next
  case (Cons ev evs)
  from Cons.prems(2) have "EmitEvent topic pid v \<in>
      set (fs_calls (form_run env pluginId S evs (form_step env pluginId S ev st)))"
    by (simp add: form_run_def)
  from Cons.IH[OF form_step_complete[OF Cons.prems(1)] this] show ?case
  proof
    assume m: "EmitEvent topic pid v \<in> set (fs_calls (form_step env pluginId S ev st))"
    from form_step_calls[of env pluginId S ev st] obtain new where
      c: "fs_calls (form_step env pluginId S ev st) = fs_calls st @ new"
      and g: "\<forall>topic pid v. EmitEvent topic pid v \<in> set new \<longrightarrow>
        topic = ''yaof:settings:changed:'' @ pluginId \<and> pid = pluginId \<and>
        (v = fs_values st \<or> v = fs_latestValuesRef st)"
      by blast
    from m c have "EmitEvent topic pid v \<in> set (fs_calls st) \<or> EmitEvent topic pid v \<in> set new"
      by auto
    then show ?thesis
    proof
      assume "EmitEvent topic pid v \<in> set (fs_calls st)"
      then show ?thesis by simp
    next
      assume n: "EmitEvent topic pid v \<in> set new"
      with g have "topic = ''yaof:settings:changed:'' @ pluginId \<and> pid = pluginId \<and>
        (v = fs_values st \<or> v = fs_latestValuesRef st)" by blast
      with Cons.prems(1) show ?thesis by (auto simp: complete_for_def)
    qed
  next
    assume "topic = ''yaof:settings:changed:'' @ pluginId \<and> pid = pluginId \<and>
      set (obj_keys S) \<subseteq> set (obj_keys v)"
    then show ?thesis by simp
  qed
qed

lemma loaded_complete:
  "get_all_result env pluginId = Some stored \<Longrightarrow>
   complete_for S (form_loadSettings env pluginId S st)"
  by (simp add: complete_for_def form_loadSettings_def Let_def form_merge_build obj_keys_def
        keys_image_obj_build)

lemma form_loadSettings_calls:
  "EmitEvent topic pid v \<in> set (fs_calls (form_loadSettings env pluginId S st)) \<Longrightarrow>
   EmitEvent topic pid v \<in> set (fs_calls st)"
  by (auto simp: form_loadSettings_def Let_def split: option.splits)

text \<open>
  Claim C7, as stated, does not hold. The topic is not \<^verbatim>\<open>settings-changed:{pluginId}\<close>:
  saving the sample plugin's settings emits on \<^verbatim>\<open>yaof:settings:changed:clock\<close>, nothing
  is emitted on \<^verbatim>\<open>settings-changed:clock\<close>, and the hook does not listen there either.
  Nor is the payload always the complete settings object: when the form's load fails,
  the \<^verbatim>\<open>catch\<close> branch sets the \<^verbatim>\<open>values\<close> state but not \<^verbatim>\<open>latestValuesRef\<close>, and one
  edit followed by the debounce delay writes and emits an object with that one key only.
\<close>

theorem C7_topic_payload_counterexample:
  "EmitEvent ''settings-changed:clock'' ''clock'' clock_stored
     \<notin> set (fs_calls (debouncedSave clock_form_env ''clock'' clock_stored fs_initial)) \<and>
   EmitEvent ''yaof:settings:changed:clock'' ''clock'' clock_stored
     \<in> set (fs_calls (debouncedSave clock_form_env ''clock'' clock_stored fs_initial)) \<and>
   setupListener_topic ''clock'' \<noteq> ''settings-changed:clock'' \<and>
   fs_calls (form_run clock_form_env_failing ''clock'' clock_schema
       [FormChange ''format'' (JStr ''12h''), FormWait 500]
       (form_loadSettings clock_form_env_failing ''clock'' clock_schema fs_initial)) =
     [InvokeGetAll ''clock'',
      InvokeSetAll ''clock'' [(''format'', JStr ''12h'')],
      EmitEvent ''yaof:settings:changed:clock'' ''clock'' [(''format'', JStr ''12h'')]]"
  by (simp add: debouncedSave_def save_and_emit_calls clock_form_env_def fs_initial_def
        setupListener_topic_def form_run_def form_loadSettings_def clock_form_env_failing_def
        handleChange_def form_elapse_def FORM_DEBOUNCE_DELAY_def Let_def)

text \<open>
  Claim C7, amended. Every settings-change event the form emits, whatever the sequence
  of edits, saves, resets and expired timers, is emitted on the topic
  \<^verbatim>\<open>yaof:settings:changed:{pluginId}\<close> with the payload \<^verbatim>\<open>{pluginId, values}\<close>; once the
  form's load has succeeded, \<^verbatim>\<open>values\<close> is the complete settings object, holding every
  schema key, not a diff. Such an event is emitted when an edit's debounce timer expires
  or the save button is used and the write resolves, and the hook subscribes on that same
  topic. (What the payload holds after a failed load is left open.)
\<close>

theorem C7_topic_payload:
  "(EmitEvent topic pid v \<in> set (fs_calls (form_run env pluginId S evs st)) \<longrightarrow>
      EmitEvent topic pid v \<in> set (fs_calls st) \<or>
      (topic = ''yaof:settings:changed:'' @ pluginId \<and> pid = pluginId)) \<and>
   (get_all_result env pluginId = Some stored \<and>
    EmitEvent topic pid v
      \<in> set (fs_calls (form_run env pluginId S evs (form_loadSettings env pluginId S st))) \<longrightarrow>
      EmitEvent topic pid v \<in> set (fs_calls st) \<or>
      (topic = ''yaof:settings:changed:'' @ pluginId \<and> pid = pluginId \<and>
       set (obj_keys S) \<subseteq> set (obj_keys v))) \<and>
   (FORM_DEBOUNCE_DELAY \<le> d \<and>
    form_resolves env (InvokeSetAll pluginId (obj_set (fs_latestValuesRef st) key x)) \<longrightarrow>
      EmitEvent (''yaof:settings:changed:'' @ pluginId) pluginId (obj_set (fs_latestValuesRef st) key x)
        \<in> set (fs_calls (form_run env pluginId S [FormChange key x, FormWait d] st))) \<and>
   (form_resolves env (InvokeSetAll pluginId (fs_values st)) \<longrightarrow>
      EmitEvent (''yaof:settings:changed:'' @ pluginId) pluginId (fs_values st)
        \<in> set (fs_calls (form_run env pluginId S [FormSave] st))) \<and>
   setupListener_topic pluginId = ''yaof:settings:changed:'' @ pluginId"
proof -
  have a: "EmitEvent topic pid v \<in> set (fs_calls st) \<or>
      (topic = ''yaof:settings:changed:'' @ pluginId \<and> pid = pluginId)"
    if "EmitEvent topic pid v \<in> set (fs_calls (form_run env pluginId S evs st))"
    using form_run_topic[OF that] .
  have b: "EmitEvent topic pid v \<in> set (fs_calls st) \<or>
      (topic = ''yaof:settings:changed:'' @ pluginId \<and> pid = pluginId \<and>
       set (obj_keys S) \<subseteq> set (obj_keys v))"
    if l: "get_all_result env pluginId = Some stored"
      and m: "EmitEvent topic pid v
        \<in> set (fs_calls (form_run env pluginId S evs (form_loadSettings env pluginId S st)))"
    using form_run_complete[OF loaded_complete[OF l] m] form_loadSettings_calls[of topic pid v env pluginId S st]
    by blast
  have c: "EmitEvent (''yaof:settings:changed:'' @ pluginId) pluginId (obj_set (fs_latestValuesRef st) key x)
        \<in> set (fs_calls (form_run env pluginId S [FormChange key x, FormWait d] st))"
    if "FORM_DEBOUNCE_DELAY \<le> d"
      "form_resolves env (InvokeSetAll pluginId (obj_set (fs_latestValuesRef st) key x))"
    using that
    by (simp add: form_run_def form_elapse_def handleChange_def Let_def debouncedSave_def
          save_and_emit_calls)
  have e: "EmitEvent (''yaof:settings:changed:'' @ pluginId) pluginId (fs_values st)
        \<in> set (fs_calls (form_run env pluginId S [FormSave] st))"
    if "form_resolves env (InvokeSetAll pluginId (fs_values st))"
    using that by (simp add: form_run_def handleSave_def save_and_emit_calls)
  have h: "setupListener_topic pluginId = ''yaof:settings:changed:'' @ pluginId"
    by (simp add: setupListener_topic_def)
  from a b c e h show ?thesis by blast
qed

theorem C7_topic_payload_witness:
  "get_all_result clock_form_env ''clock'' = Some clock_stored \<and>
   FORM_DEBOUNCE_DELAY \<le> 500 \<and>
   EmitEvent ''yaof:settings:changed:clock'' ''clock''
       [(''format'', JStr ''24h''), (''showSeconds'', JBool True),
        (''appearance'', JObj [(''color'', JStr ''#00ff00'')])]
     \<in> set (fs_calls (form_run clock_form_env ''clock'' clock_schema
              [FormChange ''format'' (JStr ''24h''), FormWait 500]
              (form_loadSettings clock_form_env ''clock'' clock_schema fs_initial))) \<and>
   set (obj_keys clock_schema) \<subseteq>
     set (obj_keys [(''format'', JStr ''24h''), (''showSeconds'', JBool True),
                    (''appearance'', JObj [(''color'', JStr ''#00ff00'')])]) \<and>
   setupListener_topic ''clock'' = ''yaof:settings:changed:clock''"
proof -
  let ?st = "form_loadSettings clock_form_env ''clock'' clock_schema fs_initial"
  let ?v = "[(''format'', JStr ''24h''), (''showSeconds'', JBool True),
        (''appearance'', JObj [(''color'', JStr ''#00ff00'')])]"
  have l: "get_all_result clock_form_env ''clock'' = Some clock_stored"
    by (simp add: clock_form_env_def)
  have ge: "FORM_DEBOUNCE_DELAY \<le> 500" by (simp add: FORM_DEBOUNCE_DELAY_def)
  have lv: "fs_latestValuesRef ?st =
      [(''format'', JStr ''12h''), (''showSeconds'', JBool True),
       (''appearance'', JObj [(''color'', JStr ''#00ff00'')])]"
    by (simp add: form_loadSettings_def clock_form_env_def clock_schema_def clock_stored_def
          js_prop_def coalesce_def nullish_def Let_def)
  have sv: "obj_set (fs_latestValuesRef ?st) ''format'' (JStr ''24h'') = ?v"
    by (simp add: lv)
  have r: "form_resolves clock_form_env
      (InvokeSetAll ''clock'' (obj_set (fs_latestValuesRef ?st) ''format'' (JStr ''24h'')))"
    by (simp add: clock_form_env_def)
  note T = C7_topic_payload[where env = clock_form_env and pluginId = "''clock''" and S = clock_schema
      and st = ?st and d = 500 and key = "''format''" and x = "JStr ''24h''"]
  from T ge r have m0: "EmitEvent (''yaof:settings:changed:'' @ ''clock'') ''clock''
        (obj_set (fs_latestValuesRef ?st) ''format'' (JStr ''24h''))
      \<in> set (fs_calls (form_run clock_form_env ''clock'' clock_schema
              [FormChange ''format'' (JStr ''24h''), FormWait 500] ?st))"
    by blast
  then have m: "EmitEvent ''yaof:settings:changed:clock'' ''clock'' ?v
      \<in> set (fs_calls (form_run clock_form_env ''clock'' clock_schema
              [FormChange ''format'' (JStr ''24h''), FormWait 500] ?st))"
    by (simp only: sv) simp
  have nf: "EmitEvent ''yaof:settings:changed:clock'' ''clock'' ?v \<notin> set (fs_calls fs_initial)"
    by (simp add: fs_initial_def)
  note T2 = C7_topic_payload[where env = clock_form_env and pluginId = "''clock''" and S = clock_schema
      and st = fs_initial and stored = clock_stored
      and evs = "[FormChange ''format'' (JStr ''24h''), FormWait 500]"
      and topic = "''yaof:settings:changed:clock''" and pid = "''clock''" and v = ?v]
  from T2 l m nf have k: "set (obj_keys clock_schema) \<subseteq> set (obj_keys ?v)"
    by blast
  from T have t: "setupListener_topic ''clock'' = ''yaof:settings:changed:'' @ ''clock''"
    by blast
  from l ge m k t show ?thesis by simp
qed

text \<open>
  Claim C8, as stated, does not hold: after a failed open the consumer is not writable.
  When \<^verbatim>\<open>load\<close> rejects for the sample plugin, the hook holds the defaults but its store
  handle stays \<^verbatim>\<open>null\<close>, and a following \<^verbatim>\<open>setSetting("format", "12h")\<close> returns without
  changing anything: \<^verbatim>\<open>format\<close> is still the default.
\<close>

theorem C8_load_failure_counterexample:
  "ph_store (hook_loadSettings load_rejects no_faults ''clock'' clock_schema ph_initial) = None \<and>
   setSetting no_faults ''format'' (JStr ''12h'')
       (hook_loadSettings load_rejects no_faults ''clock'' clock_schema ph_initial) =
     (True, hook_loadSettings load_rejects no_faults ''clock'' clock_schema ph_initial) \<and>
   obj_get (ph_values (snd (setSetting no_faults ''format'' (JStr ''12h'')
       (hook_loadSettings load_rejects no_faults ''clock'' clock_schema ph_initial)))) ''format'' =
     Some (JStr ''24h'')"
  by (simp add: hook_loadSettings_def setSetting_def ph_initial_def clock_schema_def load_rejects_def)

text \<open>
  Claim C8, amended. When opening or reading the persisted store fails, the hook ends up
  holding the schema defaults, the failure is logged and \<^verbatim>\<open>loadSettings\<close> completes
  (loading is over). Whether the consumer is writable depends on where the failure was.
  If a read rejected after the store was opened, the handle is kept and \<^verbatim>\<open>setSetting\<close>
  takes effect and persists (one \<^verbatim>\<open>set\<close>, one \<^verbatim>\<open>save\<close>). If the open itself rejected, the
  handle stays as it was, \<^verbatim>\<open>null\<close> on a first load, and \<^verbatim>\<open>setSetting\<close> resolves
  without any effect.
\<close>

theorem C8_load_failure:
  "(load (pluginId @ ''-settings.json'') = None \<longrightarrow>
      ph_values (hook_loadSettings load faults pluginId S st) = hook_defaults S [] \<and>
      ph_isLoading (hook_loadSettings load faults pluginId S st) = False \<and>
      ph_console (hook_loadSettings load faults pluginId S st) =
        ph_console st @ [''[usePluginSettings] Failed to load:''] \<and>
      ph_store (hook_loadSettings load faults pluginId S st) = ph_store st \<and>
      (ph_store st = None \<longrightarrow>
         setSetting faults key v (hook_loadSettings load faults pluginId S st) =
           (True, hook_loadSettings load faults pluginId S st))) \<and>
   (load (pluginId @ ''-settings.json'') = Some s \<and>
    (\<exists>k \<in> set (obj_keys S). get_rejects faults k) \<longrightarrow>
      ph_values (hook_loadSettings load faults pluginId S st) = hook_defaults S [] \<and>
      ph_isLoading (hook_loadSettings load faults pluginId S st) = False \<and>
      ph_console (hook_loadSettings load faults pluginId S st) =
        ph_console st @ [''[usePluginSettings] Failed to load:''] \<and>
      ph_store (hook_loadSettings load faults pluginId S st) = Some s \<and>
      (\<not> set_rejects faults key \<and> \<not> save_rejects faults \<longrightarrow>
         setSetting faults key v (hook_loadSettings load faults pluginId S st) =
           (True,
            (hook_loadSettings load faults pluginId S st)
              \<lparr>ph_values := obj_set (hook_defaults S []) key v,
               ph_store := Some (s\<lparr>cache := obj_set (cache s) key v,
                                   disk := obj_set (cache s) key v,
                                   writes := writes s @ [StoreSet key v, StoreSave]\<rparr>)\<rparr>)))"
proof -
  have open_fails: "hook_loadSettings load faults pluginId S st =
      st\<lparr>ph_console := ph_console st @ [''[usePluginSettings] Failed to load:''],
         ph_values := hook_defaults S [], ph_isLoading := False\<rparr>"
    if "load (pluginId @ ''-settings.json'') = None"
    using that by (simp add: hook_loadSettings_def)
  have read_fails: "hook_loadSettings load faults pluginId S st =
      st\<lparr>ph_store := Some s,
         ph_console := ph_console st @ [''[usePluginSettings] Failed to load:''],
         ph_values := hook_defaults S [], ph_isLoading := False\<rparr>"
    if "load (pluginId @ ''-settings.json'') = Some s" "\<exists>k \<in> set (obj_keys S). get_rejects faults k"
  proof -
    from that(2) have "hook_load_loop faults s S [] = None"
      by (simp add: hook_load_loop_None obj_keys_def)
    with that(1) show ?thesis by (simp add: hook_loadSettings_def)
  qed
  show ?thesis
  proof (intro conjI impI)
    assume a: "load (pluginId @ ''-settings.json'') = None"
    show "ph_values (hook_loadSettings load faults pluginId S st) = hook_defaults S []"
      and "ph_isLoading (hook_loadSettings load faults pluginId S st) = False"
      and "ph_console (hook_loadSettings load faults pluginId S st) =
        ph_console st @ [''[usePluginSettings] Failed to load:'']"
      and "ph_store (hook_loadSettings load faults pluginId S st) = ph_store st"
      by (simp_all add: open_fails[OF a])
    assume "ph_store st = None"
    then show "setSetting faults key v (hook_loadSettings load faults pluginId S st) =
           (True, hook_loadSettings load faults pluginId S st)"
      by (simp add: open_fails[OF a] setSetting_def)
  next
    assume b: "load (pluginId @ ''-settings.json'') = Some s \<and>
      (\<exists>k \<in> set (obj_keys S). get_rejects faults k)"
    then have rf: "hook_loadSettings load faults pluginId S st =
      st\<lparr>ph_store := Some s,
         ph_console := ph_console st @ [''[usePluginSettings] Failed to load:''],
         ph_values := hook_defaults S [], ph_isLoading := False\<rparr>"
      using read_fails by blast
    show "ph_values (hook_loadSettings load faults pluginId S st) = hook_defaults S []"
      and "ph_isLoading (hook_loadSettings load faults pluginId S st) = False"
      and "ph_console (hook_loadSettings load faults pluginId S st) =
        ph_console st @ [''[usePluginSettings] Failed to load:'']"
      and "ph_store (hook_loadSettings load faults pluginId S st) = Some s"
      by (simp_all add: rf)
    assume "\<not> set_rejects faults key \<and> \<not> save_rejects faults"
    then show "setSetting faults key v (hook_loadSettings load faults pluginId S st) =
           (True,
            (hook_loadSettings load faults pluginId S st)
              \<lparr>ph_values := obj_set (hook_defaults S []) key v,
               ph_store := Some (s\<lparr>cache := obj_set (cache s) key v,
                                   disk := obj_set (cache s) key v,
                                   writes := writes s @ [StoreSet key v, StoreSave]\<rparr>)\<rparr>)"
      by (simp add: rf setSetting_def store_set_def store_save_def Let_def)
  qed
qed

theorem C8_load_failure_witness:
  "ph_values (hook_loadSettings load_rejects no_faults ''clock'' clock_schema ph_initial) =
     [(''format'', JStr ''24h''), (''showSeconds'', JBool True), (''appearance'', JUndefined)] \<and>
   setSetting no_faults ''format'' (JStr ''12h'')
       (hook_loadSettings load_rejects no_faults ''clock'' clock_schema ph_initial) =
     (True, hook_loadSettings load_rejects no_faults ''clock'' clock_schema ph_initial) \<and>
   ph_values (hook_loadSettings (load_opens clock_store) read_faults ''clock'' clock_schema ph_initial) =
     [(''format'', JStr ''24h''), (''showSeconds'', JBool True), (''appearance'', JUndefined)] \<and>
   ph_values (snd (setSetting read_faults ''format'' (JStr ''12h'')
       (hook_loadSettings (load_opens clock_store) read_faults ''clock'' clock_schema ph_initial))) =
     [(''format'', JStr ''12h''), (''showSeconds'', JBool True), (''appearance'', JUndefined)] \<and>
   ph_store (snd (setSetting read_faults ''format'' (JStr ''12h'')
       (hook_loadSettings (load_opens clock_store) read_faults ''clock'' clock_schema ph_initial))) =
     Some \<lparr>cache = [(''format'', JStr ''12h''), (''legacy'', JNum 1),
                     (''appearance'', JObj [(''color'', JStr ''#00ff00'')])],
           disk = [(''format'', JStr ''12h''), (''legacy'', JNum 1),
                    (''appearance'', JObj [(''color'', JStr ''#00ff00'')])],
           writes = [StoreSet ''format'' (JStr ''12h''), StoreSave]\<rparr>"
proof -
  let ?open = "load_rejects"
  let ?ok = "load_opens clock_store"
  have o: "?open (''clock'' @ ''-settings.json'') = None" by (simp add: load_rejects_def)
  have i: "ph_store ph_initial = None" by (simp add: ph_initial_def)
  have r: "?ok (''clock'' @ ''-settings.json'') = Some clock_store \<and>
      (\<exists>k \<in> set (obj_keys clock_schema). get_rejects read_faults k)"
    by (auto simp: read_faults_def clock_schema_def obj_keys_def load_opens_def)
  have w: "\<not> set_rejects read_faults ''format'' \<and> \<not> save_rejects read_faults"
    by (simp add: read_faults_def)
  note T1 = C8_load_failure[where load = ?open and pluginId = "''clock''" and S = clock_schema
      and st = ph_initial and faults = no_faults and key = "''format''" and v = "JStr ''12h''"]
  note T2 = C8_load_failure[where load = ?ok and pluginId = "''clock''" and S = clock_schema
      and st = ph_initial and faults = read_faults and key = "''format''" and v = "JStr ''12h''"
      and s = clock_store]
  from T1 o have 1: "ph_values (hook_loadSettings ?open no_faults ''clock'' clock_schema ph_initial) =
      hook_defaults clock_schema []"
    by blast
  from T1 o i have 2: "setSetting no_faults ''format'' (JStr ''12h'')
       (hook_loadSettings ?open no_faults ''clock'' clock_schema ph_initial) =
     (True, hook_loadSettings ?open no_faults ''clock'' clock_schema ph_initial)"
    by blast
  from T2 r have 3: "ph_values (hook_loadSettings ?ok read_faults ''clock'' clock_schema ph_initial) =
      hook_defaults clock_schema []"
    by blast
  from T2 r w have 4: "setSetting read_faults ''format'' (JStr ''12h'')
       (hook_loadSettings ?ok read_faults ''clock'' clock_schema ph_initial) =
     (True,
      (hook_loadSettings ?ok read_faults ''clock'' clock_schema ph_initial)
        \<lparr>ph_values := obj_set (hook_defaults clock_schema []) ''format'' (JStr ''12h''),
         ph_store := Some (clock_store\<lparr>cache := obj_set (cache clock_store) ''format'' (JStr ''12h''),
                             disk := obj_set (cache clock_store) ''format'' (JStr ''12h''),
                             writes := writes clock_store @ [StoreSet ''format'' (JStr ''12h''), StoreSave]\<rparr>)\<rparr>)"
    by blast
  have d: "hook_defaults clock_schema [] =
      [(''format'', JStr ''24h''), (''showSeconds'', JBool True), (''appearance'', JUndefined)]"
    by (simp add: clock_schema_def)
  from 1 2 3 4 show ?thesis
    by (simp add: d clock_store_def clock_stored_def)
qed


section \<open>Debounced updates of the settings panel\<close>












section \<open>Applying settings in the overlay hook\<close>

lemma applySettings_resolved:
  assumes "\<forall>c. wm_resolves env c"
  shows "applySettings env wid s skip =
           \<lparr>io_calls =
              OverlayUpdateGeometry wid (js_prop s ''x'') (js_prop s ''y'')
                (js_prop s ''width'') (js_prop s ''height'') #
              (if skip then [] else [OverlaySetClickThrough wid (js_prop s ''clickThrough'')]) @
              [OverlaySetAlwaysOnTop wid (js_prop s ''alwaysOnTop''),
               OverlaySetVisible wid (js_prop s ''enabled'')],
            io_rejected = False\<rparr>"
  using assms by (simp add: applySettings_def Let_def invoke_def when_io_def)

lemma applySettings_skip_calls:
  "set (io_calls (applySettings env wid s True)) \<subseteq>
     {OverlayUpdateGeometry wid (js_prop s ''x'') (js_prop s ''y'')
        (js_prop s ''width'') (js_prop s ''height''),
      OverlaySetAlwaysOnTop wid (js_prop s ''alwaysOnTop''),
      OverlaySetVisible wid (js_prop s ''enabled'')}"
proof -
  let ?g = "OverlayUpdateGeometry wid (js_prop s ''x'') (js_prop s ''y'')
        (js_prop s ''width'') (js_prop s ''height'')"
  let ?a = "OverlaySetAlwaysOnTop wid (js_prop s ''alwaysOnTop'')"
  let ?v = "OverlaySetVisible wid (js_prop s ''enabled'')"
  define io1 where "io1 = invoke env ?g \<lparr>io_calls = [], io_rejected = False\<rparr>"
  define io3 where "io3 = invoke env ?a io1"
  define io4 where "io4 = invoke env ?v io3"
  have 1: "set (io_calls io1) \<subseteq> {?g}"
    unfolding io1_def using io_calls_invoke[of env ?g "\<lparr>io_calls = [], io_rejected = False\<rparr>"] by simp
  have 3: "set (io_calls io3) \<subseteq> {?g, ?a}"
    unfolding io3_def using 1 io_calls_invoke[of env ?a io1] by auto
  have 4: "set (io_calls io4) \<subseteq> {?g, ?a, ?v}"
    unfolding io4_def using 3 io_calls_invoke[of env ?v io3] by auto
  have "applySettings env wid s True = io4"
    by (simp add: applySettings_def Let_def when_io_def io1_def io3_def io4_def)
  with 4 show ?thesis by simp
qed

lemma override_loop_None:
  "override_loop f s ks acc = None \<longleftrightarrow> (\<exists>k \<in> set ks. get_rejects f k)"
  by (induction f s ks acc rule: override_loop.induct) (auto simp: Let_def)

lemma overlay_loadSettings_calls:
  "\<exists>loaded. oh_wm_calls (overlay_loadSettings env ctx st) = oh_wm_calls st \<or>
     oh_wm_calls (overlay_loadSettings env ctx st) =
       oh_wm_calls st @
         io_calls (applySettings (pe_wm env) (overlayWindowId (oc_pluginId ctx) (oc_overlayId ctx)) loaded True)"
  by (auto simp: overlay_loadSettings_def Let_def record_apply_def split: option.splits)

text \<open>
  Claim C9. The initial load of a window's settings never issues a click-through
  command, whatever the merged settings hold and whatever the environment does; when the
  store opens, its reads resolve and the window commands resolve, the load issues
  exactly the geometry, always-on-top and visibility commands, with the loaded settings.
  Every later apply, the one the debounce timer runs after an update, does issue the
  click-through command, between the geometry and the always-on-top commands, with the
  updated settings. The suppression is confined to the initial-load path.
\<close>

theorem C9_click_through_suppression:
  "(OverlaySetClickThrough w v \<in> set (oh_wm_calls (overlay_loadSettings env ctx st)) \<longrightarrow>
      OverlaySetClickThrough w v \<in> set (oh_wm_calls st)) \<and>
   (pe_load env (storeName (oc_pluginId ctx) (oc_overlayId ctx)) = Some s \<and>
    (\<forall>k \<in> set (obj_keys (manifest_defaults (oc_overlayDef ctx))). \<not> get_rejects (pe_faults env) k) \<and>
    (\<forall>c. wm_resolves (pe_wm env) c) \<longrightarrow>
      oh_wm_calls (overlay_loadSettings env ctx st) =
        oh_wm_calls st @
          [OverlayUpdateGeometry (overlayWindowId (oc_pluginId ctx) (oc_overlayId ctx))
             (js_prop (oh_settings (overlay_loadSettings env ctx st)) ''x'')
             (js_prop (oh_settings (overlay_loadSettings env ctx st)) ''y'')
             (js_prop (oh_settings (overlay_loadSettings env ctx st)) ''width'')
             (js_prop (oh_settings (overlay_loadSettings env ctx st)) ''height''),
           OverlaySetAlwaysOnTop (overlayWindowId (oc_pluginId ctx) (oc_overlayId ctx))
             (js_prop (oh_settings (overlay_loadSettings env ctx st)) ''alwaysOnTop''),
           OverlaySetVisible (overlayWindowId (oc_pluginId ctx) (oc_overlayId ctx))
             (js_prop (oh_settings (overlay_loadSettings env ctx st)) ''enabled'')]) \<and>
   (oh_store st = Some s \<and> updates \<noteq> [] \<and>
    HOOK_DEBOUNCE_DELAY \<le> d \<and> (\<forall>c. wm_resolves (pe_wm env) c) \<longrightarrow>
      oh_wm_calls (overlay_elapse env ctx d (updateSettings updates st)) =
        oh_wm_calls st @
          [OverlayUpdateGeometry (overlayWindowId (oc_pluginId ctx) (oc_overlayId ctx))
             (js_prop (obj_spread (oh_settings st) updates) ''x'')
             (js_prop (obj_spread (oh_settings st) updates) ''y'')
             (js_prop (obj_spread (oh_settings st) updates) ''width'')
             (js_prop (obj_spread (oh_settings st) updates) ''height''),
           OverlaySetClickThrough (overlayWindowId (oc_pluginId ctx) (oc_overlayId ctx))
             (js_prop (obj_spread (oh_settings st) updates) ''clickThrough''),
           OverlaySetAlwaysOnTop (overlayWindowId (oc_pluginId ctx) (oc_overlayId ctx))
             (js_prop (obj_spread (oh_settings st) updates) ''alwaysOnTop''),
           OverlaySetVisible (overlayWindowId (oc_pluginId ctx) (oc_overlayId ctx))
             (js_prop (obj_spread (oh_settings st) updates) ''enabled'')])"
proof -
  let ?wid = "overlayWindowId (oc_pluginId ctx) (oc_overlayId ctx)"
  let ?st' = "overlay_loadSettings env ctx st"
  have a: "OverlaySetClickThrough w v \<in> set (oh_wm_calls st)"
    if m: "OverlaySetClickThrough w v \<in> set (oh_wm_calls ?st')"
  proof -
    from overlay_loadSettings_calls[of env ctx st] obtain loaded where
      "oh_wm_calls ?st' = oh_wm_calls st \<or>
       oh_wm_calls ?st' = oh_wm_calls st @ io_calls (applySettings (pe_wm env) ?wid loaded True)"
      by blast
    then show ?thesis
    proof
      assume "oh_wm_calls ?st' = oh_wm_calls st"
      with m show ?thesis by simp
    next
      assume e: "oh_wm_calls ?st' = oh_wm_calls st @ io_calls (applySettings (pe_wm env) ?wid loaded True)"
      have "OverlaySetClickThrough w v \<notin> set (io_calls (applySettings (pe_wm env) ?wid loaded True))"
        using applySettings_skip_calls[of "pe_wm env" ?wid loaded] by auto
      with m e show ?thesis by simp
    qed
  qed
  have b: "oh_wm_calls ?st' =
        oh_wm_calls st @
          [OverlayUpdateGeometry ?wid
             (js_prop (oh_settings ?st') ''x'') (js_prop (oh_settings ?st') ''y'')
             (js_prop (oh_settings ?st') ''width'') (js_prop (oh_settings ?st') ''height''),
           OverlaySetAlwaysOnTop ?wid (js_prop (oh_settings ?st') ''alwaysOnTop''),
           OverlaySetVisible ?wid (js_prop (oh_settings ?st') ''enabled'')]"
    if l: "pe_load env (storeName (oc_pluginId ctx) (oc_overlayId ctx)) = Some s"
      and g: "\<forall>k \<in> set (obj_keys (manifest_defaults (oc_overlayDef ctx))). \<not> get_rejects (pe_faults env) k"
      and r: "\<forall>c. wm_resolves (pe_wm env) c"
  proof -
    let ?defaults = "manifest_defaults (oc_overlayDef ctx)"
    from g have "override_loop (pe_faults env) s (obj_keys ?defaults) ?defaults \<noteq> None"
      by (simp add: override_loop_None)
    then obtain loaded where
      ld: "override_loop (pe_faults env) s (obj_keys ?defaults) ?defaults = Some loaded"
      by auto
    show ?thesis
      by (simp add: overlay_loadSettings_def Let_def l ld record_apply_def
            applySettings_resolved[OF r])
  qed
  have c: "oh_wm_calls (overlay_elapse env ctx d (updateSettings updates st)) =
        oh_wm_calls st @
          [OverlayUpdateGeometry ?wid
             (js_prop (obj_spread (oh_settings st) updates) ''x'')
             (js_prop (obj_spread (oh_settings st) updates) ''y'')
             (js_prop (obj_spread (oh_settings st) updates) ''width'')
             (js_prop (obj_spread (oh_settings st) updates) ''height''),
           OverlaySetClickThrough ?wid (js_prop (obj_spread (oh_settings st) updates) ''clickThrough''),
           OverlaySetAlwaysOnTop ?wid (js_prop (obj_spread (oh_settings st) updates) ''alwaysOnTop''),
           OverlaySetVisible ?wid (js_prop (obj_spread (oh_settings st) updates) ''enabled'')]"
    if s: "oh_store st = Some s" and u: "updates \<noteq> []"
      and d: "HOOK_DEBOUNCE_DELAY \<le> d" and r: "\<forall>c. wm_resolves (pe_wm env) c"
  proof -
    let ?p = "obj_spread (oh_pendingUpdatesRef st) updates"
    obtain k x rest where us: "updates = (k, x) # rest"
      using u by (cases updates) auto
    have "fst (k, x) \<in> set (map fst ?p)"
      using keys_obj_spread[of "oh_pendingUpdatesRef st" updates] us by simp
    then have ne: "?p \<noteq> []" by fastforce
    obtain ok s' where wb: "store_write_batch (pe_faults env) ?p s = (ok, s')"
      by (cases "store_write_batch (pe_faults env) ?p s")
    show ?thesis
      using s d ne wb
      by (simp add: overlay_elapse_def updateSettings_def debouncedApply_def Let_def
            overlay_flush_def record_apply_def applySettings_resolved[OF r])
  qed
  from a b c show ?thesis by blast
qed


theorem C9_click_through_suppression_witness:
  "oh_wm_calls (overlay_loadSettings clock_env clock_ctx oh_initial) =
     [OverlayUpdateGeometry ''clock-main'' (JNum 810) (JNum 440) (JNum 300) (JNum 200),
      OverlaySetAlwaysOnTop ''clock-main'' (JBool True),
      OverlaySetVisible ''clock-main'' (JBool True)] \<and>
   oh_wm_calls (overlay_elapse clock_env clock_ctx 300
       (updateSettings [(''clickThrough'', JBool False)]
          (overlay_loadSettings clock_env clock_ctx oh_initial))) =
     [OverlayUpdateGeometry ''clock-main'' (JNum 810) (JNum 440) (JNum 300) (JNum 200),
      OverlaySetAlwaysOnTop ''clock-main'' (JBool True),
      OverlaySetVisible ''clock-main'' (JBool True),
      OverlayUpdateGeometry ''clock-main'' (JNum 810) (JNum 440) (JNum 300) (JNum 200),
      OverlaySetClickThrough ''clock-main'' (JBool False),
      OverlaySetAlwaysOnTop ''clock-main'' (JBool True),
      OverlaySetVisible ''clock-main'' (JBool True)]"
proof -
  let ?st = "overlay_loadSettings clock_env clock_ctx oh_initial"
  let ?D = "[(''enabled'', JBool True), (''width'', JNum 300), (''height'', JNum 200),
      (''x'', JNum 810), (''y'', JNum 440), (''positionPreset'', JStr ''center''),
      (''opacity'', JNum 100), (''clickThrough'', JBool True), (''alwaysOnTop'', JBool True)]"
  have md: "manifest_defaults (oc_overlayDef clock_ctx) = ?D"
    by (simp add: manifest_defaults_def clock_ctx_def clock_def_def calculateDefaultPosition_def Let_def)
  have ld: "override_loop no_faults empty_store ks acc = Some acc" for ks acc
    by (induction ks arbitrary: acc)
       (simp_all add: no_faults_def empty_store_def store_get_def js_prop_def nullish_def)
  have h1: "pe_load clock_env (storeName (oc_pluginId clock_ctx) (oc_overlayId clock_ctx)) = Some empty_store"
    by (simp add: clock_env_def)
  have h2: "\<forall>k \<in> set (obj_keys (manifest_defaults (oc_overlayDef clock_ctx))). \<not> get_rejects (pe_faults clock_env) k"
    by (simp add: clock_env_def no_faults_def)
  have h3: "\<forall>c. wm_resolves (pe_wm clock_env) c"
    by (simp add: clock_env_def wm_answering_def)
  have s1: "oh_settings ?st = ?D"
    by (simp add: overlay_loadSettings_def h1 md ld Let_def record_apply_def clock_env_def)
  have s2: "oh_store ?st = Some empty_store"
    by (simp add: overlay_loadSettings_def h1 md ld Let_def record_apply_def clock_env_def)
  have s3: "oh_wm_calls oh_initial = []" by (simp add: oh_initial_def)
  have wid: "overlayWindowId (oc_pluginId clock_ctx) (oc_overlayId clock_ctx) = ''clock-main''"
    by (simp add: overlayWindowId_def clock_ctx_def)
  note T1 = C9_click_through_suppression[where env = clock_env and ctx = clock_ctx and st = oh_initial
      and s = empty_store]
  from T1 h1 h2 h3
  have a: "oh_wm_calls ?st =
        oh_wm_calls oh_initial @
          [OverlayUpdateGeometry (overlayWindowId (oc_pluginId clock_ctx) (oc_overlayId clock_ctx))
             (js_prop (oh_settings ?st) ''x'') (js_prop (oh_settings ?st) ''y'')
             (js_prop (oh_settings ?st) ''width'') (js_prop (oh_settings ?st) ''height''),
           OverlaySetAlwaysOnTop (overlayWindowId (oc_pluginId clock_ctx) (oc_overlayId clock_ctx))
             (js_prop (oh_settings ?st) ''alwaysOnTop''),
           OverlaySetVisible (overlayWindowId (oc_pluginId clock_ctx) (oc_overlayId clock_ctx))
             (js_prop (oh_settings ?st) ''enabled'')]"
    by blast
  have a': "oh_wm_calls ?st =
     [OverlayUpdateGeometry ''clock-main'' (JNum 810) (JNum 440) (JNum 300) (JNum 200),
      OverlaySetAlwaysOnTop ''clock-main'' (JBool True),
      OverlaySetVisible ''clock-main'' (JBool True)]"
    by (simp add: a s1 s3 wid js_prop_def)
  have u: "[(''clickThrough'', JBool False)] \<noteq> []" by simp
  have dl: "HOOK_DEBOUNCE_DELAY \<le> 300" by (simp add: HOOK_DEBOUNCE_DELAY_def)
  note T2 = C9_click_through_suppression[where env = clock_env and ctx = clock_ctx and st = ?st
      and s = empty_store and updates = "[(''clickThrough'', JBool False)]" and d = 300]
  from T2 s2 u dl h3
  have b: "oh_wm_calls (overlay_elapse clock_env clock_ctx 300
       (updateSettings [(''clickThrough'', JBool False)] ?st)) =
        oh_wm_calls ?st @
          [OverlayUpdateGeometry (overlayWindowId (oc_pluginId clock_ctx) (oc_overlayId clock_ctx))
             (js_prop (obj_spread (oh_settings ?st) [(''clickThrough'', JBool False)]) ''x'')
             (js_prop (obj_spread (oh_settings ?st) [(''clickThrough'', JBool False)]) ''y'')
             (js_prop (obj_spread (oh_settings ?st) [(''clickThrough'', JBool False)]) ''width'')
             (js_prop (obj_spread (oh_settings ?st) [(''clickThrough'', JBool False)]) ''height''),
           OverlaySetClickThrough (overlayWindowId (oc_pluginId clock_ctx) (oc_overlayId clock_ctx))
             (js_prop (obj_spread (oh_settings ?st) [(''clickThrough'', JBool False)]) ''clickThrough''),
           OverlaySetAlwaysOnTop (overlayWindowId (oc_pluginId clock_ctx) (oc_overlayId clock_ctx))
             (js_prop (obj_spread (oh_settings ?st) [(''clickThrough'', JBool False)]) ''alwaysOnTop''),
           OverlaySetVisible (overlayWindowId (oc_pluginId clock_ctx) (oc_overlayId clock_ctx))
             (js_prop (obj_spread (oh_settings ?st) [(''clickThrough'', JBool False)]) ''enabled'')]"
    by blast
  have b': "oh_wm_calls (overlay_elapse clock_env clock_ctx 300
       (updateSettings [(''clickThrough'', JBool False)] ?st)) =
     [OverlayUpdateGeometry ''clock-main'' (JNum 810) (JNum 440) (JNum 300) (JNum 200),
      OverlaySetAlwaysOnTop ''clock-main'' (JBool True),
      OverlaySetVisible ''clock-main'' (JBool True),
      OverlayUpdateGeometry ''clock-main'' (JNum 810) (JNum 440) (JNum 300) (JNum 200),
      OverlaySetClickThrough ''clock-main'' (JBool False),
      OverlaySetAlwaysOnTop ''clock-main'' (JBool True),
      OverlaySetVisible ''clock-main'' (JBool True)]"
    by (simp add: b a' s1 wid obj_spread_def js_prop_def)
  from a' b' show ?thesis by blast
qed

end
